theory Spec2Isabelle
  imports Main "HOL-Library.Word"
begin

unbundle bit_operations_syntax

section \<open>Data model of \<open>clk_idtxp.c\<close>\<close>

text \<open>
  The driver keeps one \<open>struct clk_idtxp\<close> per synthesizer. Its integer fields are
  modelled at their C widths: \<open>u8\<close>, \<open>u16\<close>, \<open>u32\<close> and \<open>u64\<close> are words of 8, 16, 32
  and 64 bits, \<open>bool\<close> is \<open>bool\<close>, \<open>unsigned int\<close> is a 32-bit word and
  \<open>unsigned long\<close> a 64-bit word (an LP64 kernel). C return codes are \<open>int\<close>:
  0 for success, a negative errno otherwise.
\<close>

type_synonym u8 = "8 word"
type_synonym u16 = "16 word"
type_synonym u32 = "32 word"
type_synonym u64 = "64 word"

definition DIVO_MIN :: nat where "DIVO_MIN = 4"
definition DIVO_MAX :: nat where "DIVO_MAX = 511"
definition DIVN_MIN :: nat where "DIVN_MIN = 41"
definition DIVN_MAX :: nat where "DIVN_MAX = 216"
definition FVCO_MIN :: nat where "FVCO_MIN = 6860000000"
definition FVCO_MAX :: nat where "FVCO_MAX = 8650000000"
definition IDTXP_MIN_FREQ :: nat where "IDTXP_MIN_FREQ = 16000000"
definition IDTXP_MAX_FREQ :: nat where "IDTXP_MAX_FREQ = 2100000000"

definition EINVAL :: int where "EINVAL = 22"
definition ENOMEM :: int where "ENOMEM = 12"
definition EOVERFLOW :: int where "EOVERFLOW = 75"

text \<open>Register addresses and field masks, as the source's constant table gives them.\<close>

definition IDTXP_REG_DIVO_7_0 :: u8 where "IDTXP_REG_DIVO_7_0 = 0x10"
definition IDTXP_REG_HSPI2C_CMOS :: u8 where "IDTXP_REG_HSPI2C_CMOS = 0x50"
definition IDTXP_REG_VCXO :: u8 where "IDTXP_REG_VCXO = 0x52"
definition IDTXP_REG_CONTROL :: u8 where "IDTXP_REG_CONTROL = 0x60"
definition IDTXP_REG_FREQ_CHG :: u8 where "IDTXP_REG_FREQ_CHG = 0x62"

definition IDTXP_DIVO_8_MASK :: u32 where "IDTXP_DIVO_8_MASK = 0x80"
definition IDTXP_DIVN_INT_6_0_MASK :: u32 where "IDTXP_DIVN_INT_6_0_MASK = 0x7F"
definition IDTXP_ICP_OFFSET_EN_MASK :: u32 where "IDTXP_ICP_OFFSET_EN_MASK = 0x40"
definition IDTXP_DIVN_INT_8_7_MASK :: u32 where "IDTXP_DIVN_INT_8_7_MASK = 0x30"
definition IDTXP_ICP_VALUE_MASK :: u32 where "IDTXP_ICP_VALUE_MASK = 0x0E"
definition IDTXP_PLL_MODE_MASK :: u32 where "IDTXP_PLL_MODE_MASK = 0x01"
definition IDTXP_HSPI2C_EN :: u32 where "IDTXP_HSPI2C_EN = 0x10"
definition IDTXP_CMOS_EN :: u32 where "IDTXP_CMOS_EN = 0x08"
definition IDTXP_DBLR_DIS_MASK :: u32 where "IDTXP_DBLR_DIS_MASK = 0x80"
definition IDTXP_VDD_DEF_MASK :: u32 where "IDTXP_VDD_DEF_MASK = 0x60"
definition IDTXP_VCXO_BW_MASK :: u32 where "IDTXP_VCXO_BW_MASK = 0x03"
definition IDTXP_GSLOPE_MASK :: u32 where "IDTXP_GSLOPE_MASK = 0x80"
definition IDTXP_GEXP_MASK :: u32 where "IDTXP_GEXP_MASK = 0x70"
definition IDTXP_GSCALE_MASK :: u32 where "IDTXP_GSCALE_MASK = 0x0F"
definition IDTXP_OE_POL_EN :: u32 where "IDTXP_OE_POL_EN = 0x80"
definition IDTXP_DRV_TYPE :: u32 where "IDTXP_DRV_TYPE = 0x70"
definition IDTXP_OT_GM_MASK :: u32 where "IDTXP_OT_GM_MASK = 0xC0"
definition IDTXP_XO_CAP_MASK :: u32 where "IDTXP_XO_CAP_MASK = 0x3F"
definition IDTXP_XO_AMPSLICE_MASK :: u32 where "IDTXP_XO_AMPSLICE_MASK = 0xF0"
definition IDTXP_BYPASS_MASK :: u32 where "IDTXP_BYPASS_MASK = 0x08"
definition IDTXP_CAP_X2_MASK :: u32 where "IDTXP_CAP_X2_MASK = 0x07"
definition IDTXP_OT_DIS_MASK :: u32 where "IDTXP_OT_DIS_MASK = 0x80"
definition IDTXP_OT_RES_MASK :: u32 where "IDTXP_OT_RES_MASK = 0x70"

record clk_xo_setting =
  hsp_i2c_en :: bool
  cmos_en :: bool
  dblr_dis :: bool
  vdd_def :: u8
  vcxo_dis :: bool
  vcxo_bw :: u8
  vcxo_gslope :: bool
  vcxo_gexp :: u8
  vcxo_gscale :: u8
  oe_pol_en :: bool
  drv_type :: u8
  gm :: u8
  cap_x1 :: u8
  ampslice :: u8
  bypass :: bool
  cap_x2 :: u8
  ot_dis :: bool
  ot_res :: u8

text \<open>
  Modelled from the spec: the register port (the kernel's \<open>regmap\<close> over I2C) is not part
  of the source file. Section 6 of the specification gives its shape: one byte per 8-bit
  address, reads and batch writes that either succeed or fail. \<open>chip\<close> is the register
  file of the device; \<open>written\<close> is the sequence of (address, value) writes the device
  has received, oldest first; \<open>faults\<close> lists the return codes of the bus transactions
  still to come (0 is success, anything else the errno the transaction returns; an
  exhausted list means success). A failed transaction leaves the device as it was.
\<close>

record regmap =
  chip :: "u8 \<Rightarrow> u8"
  written :: "(u8 \<times> u8) list"
  faults :: "int list"

record clk_idtxp =
  regmap :: regmap
  has_settings :: bool
  settings :: "u8 list"
  min_freq :: u64
  max_freq :: u64
  xo :: clk_xo_setting
  fxtal :: u32
  fvco :: u64
  divo :: u16
  divnint :: u16
  divnfrac :: u32
  req_freq :: u32
  act_freq :: u32
  icp_offst_en :: bool
  icp_value :: u8
  pll_mode :: bool
  divo_8 :: u8
  divnint_8_7 :: u8
  divnfrac_15_8 :: u8
  divnfrac_23_16 :: u8

section \<open>Bit-field codec\<close>

text \<open>
  \<open>bit_to_shift\<close> isolates the lowest set bit of the mask and counts the zero bits to
  its right by the C function's cascade of tests. The counter \<open>c\<close> is an
  \<open>unsigned int\<close>; the function returns it as \<open>int\<close>.
\<close>

definition bit_to_shift :: "u32 \<Rightarrow> int" where
  "bit_to_shift msk =
     (let c = (32 :: u32);
          m = msk AND (NOT msk + 1);
          c = (if m \<noteq> 0 then c - 1 else c);
          c = (if m AND 0x0000FFFF \<noteq> 0 then c - 16 else c);
          c = (if m AND 0x00FF00FF \<noteq> 0 then c - 8 else c);
          c = (if m AND 0x0F0F0F0F \<noteq> 0 then c - 4 else c);
          c = (if m AND 0x33333333 \<noteq> 0 then c - 2 else c);
          c = (if m AND 0x55555555 \<noteq> 0 then c - 1 else c)
      in sint c)"

text \<open>
  \<open>set_to_reg\<close> and \<open>get_from_reg\<close> compute in \<open>unsigned int\<close> (the byte operands are
  promoted) and store the low byte of the result. The C functions write through a
  pointer; the model returns the byte written. For a mask of 0 the C code shifts by 32,
  which C leaves undefined; every call in the driver passes a nonzero constant.
\<close>

definition set_to_reg :: "u8 \<Rightarrow> u8 \<Rightarrow> u32 \<Rightarrow> u8" where
  "set_to_reg reg val msk =
     ucast ((ucast reg AND NOT msk) OR push_bit (nat (bit_to_shift msk)) (ucast val :: u32))"

definition get_from_reg :: "u8 \<Rightarrow> u32 \<Rightarrow> u8" where
  "get_from_reg reg msk = ucast (drop_bit (nat (bit_to_shift msk)) (ucast reg AND msk))"

text \<open>
  Several callers pass \<open>(u8* )&field\<close> for a \<open>u16\<close> or \<open>u32\<close> field: on a little-endian
  machine the store replaces the low byte of the field and keeps the bytes above it.
  For a \<open>bool\<close> field the byte stored is 0 or 1 (all such masks are single bits).
\<close>

definition store_low_u16 :: "u16 \<Rightarrow> u8 \<Rightarrow> u16" where
  "store_low_u16 field v = (field AND 0xFF00) OR ucast v"

definition store_low_u32 :: "u32 \<Rightarrow> u8 \<Rightarrow> u32" where
  "store_low_u32 field v = (field AND 0xFFFFFF00) OR ucast v"

definition store_bool :: "u8 \<Rightarrow> bool" where
  "store_bool v = (v \<noteq> 0)"

definition bool_u8 :: "bool \<Rightarrow> u8" where
  "bool_u8 b = (if b then 1 else 0)"

text \<open>
  \<open>update_divis_regs\<close>: the four derived bytes. The operands are promoted to 32 bits,
  masked, shifted right and stored into a \<open>u8\<close>.
\<close>

definition update_divis_regs :: "clk_idtxp \<Rightarrow> clk_idtxp" where
  "update_divis_regs data =
     (let data = data\<lparr>divo_8 := ucast (drop_bit 8 ((ucast (divo data) :: u32) AND push_bit 8 0x1))\<rparr>;
          data = data\<lparr>divnint_8_7 := ucast (drop_bit 7 ((ucast (divo data) :: u32) AND push_bit 7 0x2))\<rparr>;
          data = data\<lparr>divnfrac_15_8 := ucast (drop_bit 8 (divnfrac data AND push_bit 8 0xFF))\<rparr>;
          data = data\<lparr>divnfrac_23_16 := ucast (drop_bit 16 (divnfrac data AND push_bit 16 0xFF))\<rparr>
      in data)"

section \<open>Charge pump and crystal-oscillator settings\<close>

definition idtxp_calc_charge_pump :: "clk_idtxp \<Rightarrow> int \<times> clk_idtxp" where
  "idtxp_calc_charge_pump data =
     (let data =
        (if fvco data < 7000000000 then data\<lparr>icp_value := 5\<rparr>
         else if 7000000000 \<le> fvco data \<and> fvco data < 7400000000 then data\<lparr>icp_value := 4\<rparr>
         else if 7400000000 \<le> fvco data \<and> fvco data < 7800000000 then data\<lparr>icp_value := 3\<rparr>
         else data\<lparr>icp_value := 2\<rparr>)
      in (0, data))"

definition idtxp_calc_xo_settings :: "clk_idtxp \<Rightarrow> int \<times> clk_idtxp" where
  "idtxp_calc_xo_settings data =
     (if 40000000 \<le> fxtal data \<and> fxtal data \<le> 80000000 then
        (0, data\<lparr>xo := (xo data)\<lparr>dblr_dis := False, gm := 0x2, cap_x1 := 0x3C,
                    ampslice := 0x1, cap_x2 := 0x2, ot_dis := True, ot_res := 0x0\<rparr>\<rparr>)
      else if 100000000 \<le> fxtal data \<and> fxtal data < 140000000 then
        (0, data\<lparr>xo := (xo data)\<lparr>dblr_dis := True, gm := 0x2, cap_x1 := 0x15,
                    ampslice := 0x0C, cap_x2 := 0x5, ot_dis := False, ot_res := 0x5\<rparr>\<rparr>)
      else if 140000000 \<le> fxtal data \<and> fxtal data \<le> 166000000 then
        (0, data\<lparr>xo := (xo data)\<lparr>dblr_dis := True, gm := 0x3, cap_x1 := 0x15,
                    ampslice := 0x0C, cap_x2 := 0x5, ot_dis := False, ot_res := 0x3\<rparr>\<rparr>)
      else (- EINVAL, data))"

section \<open>Register port\<close>

text \<open>
  Modelled from the spec: \<open>regmap_write\<close>, \<open>regmap_bulk_read\<close> and
  \<open>regmap_multi_reg_write\<close> are kernel functions, not part of the source file. They
  follow section 6 of the specification: \<open>read(address, length)\<close> and
  \<open>write_batch(entries)\<close>, each returning success or a failure code. \<open>bus_result\<close>
  takes the return code of the next transaction from \<open>faults\<close>. A failed read leaves
  the caller's buffer as it was.
\<close>

definition bus_result :: "regmap \<Rightarrow> int \<times> regmap" where
  "bus_result rm = (case faults rm of [] \<Rightarrow> (0, rm) | e # es \<Rightarrow> (e, rm\<lparr>faults := es\<rparr>))"

definition regmap_write :: "regmap \<Rightarrow> u8 \<Rightarrow> u8 \<Rightarrow> int \<times> regmap" where
  "regmap_write rm reg val =
     (let (err, rm) = bus_result rm
      in if err \<noteq> 0 then (err, rm)
         else (0, rm\<lparr>chip := (chip rm)(reg := val), written := written rm @ [(reg, val)]\<rparr>))"

definition regmap_bulk_read :: "regmap \<Rightarrow> u8 \<Rightarrow> u8 list \<Rightarrow> int \<times> u8 list \<times> regmap" where
  "regmap_bulk_read rm reg buf =
     (let (err, rm) = bus_result rm
      in if err \<noteq> 0 then (err, buf, rm)
         else (0, map (\<lambda>i. chip rm (reg + of_nat i)) [0..<length buf], rm))"

definition regmap_multi_reg_write :: "regmap \<Rightarrow> (u8 \<times> u8) list \<Rightarrow> int \<times> regmap" where
  "regmap_multi_reg_write rm regs =
     (let (err, rm) = bus_result rm
      in if err \<noteq> 0 then (err, rm)
         else (0, rm\<lparr>chip := fold (\<lambda>(r, v) c. c(r := v)) regs (chip rm),
                    written := written rm @ regs\<rparr>))"

section \<open>Reading the divider and XO registers\<close>

text \<open>
  The local array \<open>reg\<close> of \<open>idtxp_get_divs_and_icp\<close> is only used after a successful
  read, which fills all of it, so its initial contents play no part (zeroes here).
  \<open>regs_to_divs\<close> is the body of the function after the read: the ten \<open>get_from_reg\<close>
  calls on the six bytes and the three statements that merge the high parts.
\<close>

definition regs_to_divs :: "clk_idtxp \<Rightarrow> u8 list \<Rightarrow> clk_idtxp" where
  "regs_to_divs data reg =
     (let data = data\<lparr>divo := store_low_u16 (divo data) (get_from_reg (reg ! 0) 0xFF)\<rparr>;
          data = data\<lparr>divo_8 := get_from_reg (reg ! 1) IDTXP_DIVO_8_MASK\<rparr>;
          data = data\<lparr>divnint :=
                   store_low_u16 (divnint data) (get_from_reg (reg ! 1) IDTXP_DIVN_INT_6_0_MASK)\<rparr>;
          data = data\<lparr>icp_offst_en := store_bool (get_from_reg (reg ! 2) IDTXP_ICP_OFFSET_EN_MASK)\<rparr>;
          data = data\<lparr>divnint_8_7 := get_from_reg (reg ! 2) IDTXP_DIVN_INT_8_7_MASK\<rparr>;
          data = data\<lparr>icp_value := get_from_reg (reg ! 2) IDTXP_ICP_VALUE_MASK\<rparr>;
          data = data\<lparr>pll_mode := store_bool (get_from_reg (reg ! 2) IDTXP_PLL_MODE_MASK)\<rparr>;
          data = data\<lparr>divnfrac := store_low_u32 (divnfrac data) (get_from_reg (reg ! 3) 0xFF)\<rparr>;
          data = data\<lparr>divnfrac_15_8 := get_from_reg (reg ! 4) 0xFF\<rparr>;
          data = data\<lparr>divnfrac_23_16 := get_from_reg (reg ! 5) 0xFF\<rparr>;
          data = data\<lparr>divo := divo data OR ucast (push_bit 8 (ucast (divo_8 data) :: u32))\<rparr>;
          data = data\<lparr>divnint := divnint data OR ucast (divnint_8_7 data)\<rparr>;
          data = data\<lparr>divnfrac := divnfrac data OR
                   (push_bit 8 (ucast (divnfrac_15_8 data)) OR
                    push_bit 16 (ucast (divnfrac_23_16 data)))\<rparr>
      in data)"

definition idtxp_get_divs_and_icp :: "clk_idtxp \<Rightarrow> int \<times> clk_idtxp" where
  "idtxp_get_divs_and_icp data =
     (let (err, reg, rm) = regmap_bulk_read (regmap data) IDTXP_REG_DIVO_7_0 (replicate 6 0);
          data = data\<lparr>regmap := rm\<rparr>
      in if err \<noteq> 0 then (err, data) else (0, regs_to_divs data reg))"

definition regs_to_xo :: "clk_idtxp \<Rightarrow> u8 list \<Rightarrow> clk_idtxp" where
  "regs_to_xo data reg =
     data\<lparr>xo := (xo data)\<lparr>
       hsp_i2c_en := store_bool (get_from_reg (reg ! 0) IDTXP_HSPI2C_EN),
       cmos_en := store_bool (get_from_reg (reg ! 0) IDTXP_CMOS_EN),
       dblr_dis := store_bool (get_from_reg (reg ! 1) IDTXP_DBLR_DIS_MASK),
       vdd_def := get_from_reg (reg ! 1) IDTXP_VDD_DEF_MASK,
       vcxo_bw := get_from_reg (reg ! 1) IDTXP_VCXO_BW_MASK,
       vcxo_gslope := store_bool (get_from_reg (reg ! 2) IDTXP_GSLOPE_MASK),
       vcxo_gexp := get_from_reg (reg ! 2) IDTXP_GEXP_MASK,
       vcxo_gscale := get_from_reg (reg ! 2) IDTXP_GSCALE_MASK,
       oe_pol_en := store_bool (get_from_reg (reg ! 3) IDTXP_OE_POL_EN),
       drv_type := get_from_reg (reg ! 3) IDTXP_DRV_TYPE,
       gm := get_from_reg (reg ! 5) IDTXP_OT_GM_MASK,
       cap_x1 := get_from_reg (reg ! 5) IDTXP_XO_CAP_MASK,
       ampslice := get_from_reg (reg ! 6) IDTXP_XO_AMPSLICE_MASK,
       bypass := store_bool (get_from_reg (reg ! 6) IDTXP_BYPASS_MASK),
       cap_x2 := get_from_reg (reg ! 6) IDTXP_CAP_X2_MASK,
       ot_dis := store_bool (get_from_reg (reg ! 7) IDTXP_OT_DIS_MASK),
       ot_res := get_from_reg (reg ! 7) IDTXP_OT_RES_MASK\<rparr>\<rparr>"

definition idtxp_get_xo_settings :: "clk_idtxp \<Rightarrow> int \<times> clk_idtxp" where
  "idtxp_get_xo_settings data =
     (let (err, reg, rm) = regmap_bulk_read (regmap data) IDTXP_REG_HSPI2C_CMOS (replicate 8 0);
          data = data\<lparr>regmap := rm\<rparr>
      in if err \<noteq> 0 then (err, data) else (0, regs_to_xo data reg))"

definition idtxp_get_defaults :: "clk_idtxp \<Rightarrow> int \<times> clk_idtxp" where
  "idtxp_get_defaults data =
     (let (err, data) = idtxp_get_divs_and_icp data
      in if err \<noteq> 0 then (err, data)
         else let (err, data) = idtxp_get_xo_settings data
              in if err \<noteq> 0 then (err, data) else (0, data))"

section \<open>Divider solver\<close>

text \<open>
  Modelled from the spec: \<open>div_u64\<close>, \<open>div64_u64\<close> and \<open>div64_u64_rem\<close> are kernel
  helpers, not part of the source file. Section 4.2 of the specification fixes them as
  unsigned floor division with the true remainder. A zero divisor is a machine divide
  error, which the model reports as a \<open>fault\<close> instead of HOL's \<open>x div 0 = 0\<close>.
\<close>

datatype fault = Divide_error

definition div64_u64_rem :: "u64 \<Rightarrow> u64 \<Rightarrow> fault + u64 \<times> u64" where
  "div64_u64_rem dividend divisor =
     (if divisor = 0 then Inl Divide_error else Inr (dividend div divisor, dividend mod divisor))"

definition div64_u64 :: "u64 \<Rightarrow> u64 \<Rightarrow> fault + u64" where
  "div64_u64 dividend divisor =
     (if divisor = 0 then Inl Divide_error else Inr (dividend div divisor))"

definition div_u64 :: "u64 \<Rightarrow> u32 \<Rightarrow> fault + u64" where
  "div_u64 dividend divisor =
     (if divisor = 0 then Inl Divide_error else Inr (dividend div ucast divisor))"

text \<open>
  The \<open>while\<close> loop of \<open>idtxp_calc_divs\<close>. It may not return (the \<open>continue\<close> branch
  repeats the iteration with the same \<open>divo\<close>), so it is a partial function: \<open>None\<close>
  stands for a loop that runs forever. A result carries \<open>is_int\<close> and the updated
  structure. The local \<open>rem\<close> is not read after the loop.
\<close>

partial_function (option) calc_divs_loop :: "u32 \<Rightarrow> clk_idtxp \<Rightarrow> (fault + bool \<times> clk_idtxp) option"
where
  "calc_divs_loop pfd data =
     (if unat (divo data) < DIVO_MAX then
        let data = data\<lparr>fvco := ucast (req_freq data) * ucast (divo data)\<rparr>
        in if unat (fvco data) > FVCO_MAX then Some (Inr (False, data))
           else
             case div64_u64_rem (fvco data) (ucast pfd) of
               Inl f \<Rightarrow> Some (Inl f)
             | Inr (q, rem) \<Rightarrow>
                 let data = data\<lparr>divnint := ucast q\<rparr>
                 in if unat (divnint data) < DIVN_MIN then calc_divs_loop pfd data
                    else if unat (divnint data) > DIVN_MAX then Some (Inr (False, data))
                    else if rem = 0 then Some (Inr (True, data))
                    else calc_divs_loop pfd (data\<lparr>divo := divo data + 1\<rparr>)
      else Some (Inr (False, data)))"

text \<open>The block under \<open>if (!is_int)\<close>: the fractional solution at the first guess.\<close>

definition calc_divs_frac :: "u32 \<Rightarrow> clk_idtxp \<Rightarrow> fault + clk_idtxp" where
  "calc_divs_frac pfd data =
     (case div_u64 (of_nat FVCO_MIN) (req_freq data) of
        Inl f \<Rightarrow> Inl f
      | Inr q0 \<Rightarrow>
          let data = data\<lparr>divo := ucast (1 + q0)\<rparr>;
              data = data\<lparr>fvco := ucast (req_freq data) * ucast (divo data)\<rparr>
          in case div64_u64_rem (fvco data) (ucast pfd) of
               Inl f \<Rightarrow> Inl f
             | Inr (q, rem) \<Rightarrow>
                 let data = data\<lparr>divnint := ucast q\<rparr>
                 in case div64_u64_rem (push_bit 24 rem) (ucast pfd) of
                      Inl f \<Rightarrow> Inl f
                    | Inr (q, rem) \<Rightarrow>
                        let data = data\<lparr>divnfrac := ucast q\<rparr>
                        in case div64_u64 (rem * 10) (ucast pfd) of
                             Inl f \<Rightarrow> Inl f
                           | Inr t \<Rightarrow>
                               let data = (if t \<ge> 5 then data\<lparr>divnfrac := divnfrac data + 1\<rparr>
                                           else data);
                                   data = (if drop_bit 24 (divnfrac data * 10) \<ge> 5
                                           then data\<lparr>divnint := divnint data + 1\<rparr> else data)
                               in Inr data)"

definition idtxp_calc_divs :: "clk_idtxp \<Rightarrow> (fault + int \<times> clk_idtxp) option" where
  "idtxp_calc_divs data =
     (let data = data\<lparr>divnfrac := 0\<rparr>;
          pfd = fxtal data * (if dblr_dis (xo data) then 1 else 2)
      in case div_u64 (of_nat FVCO_MIN) (req_freq data) of
           Inl f \<Rightarrow> Some (Inl f)
         | Inr q0 \<Rightarrow>
             (case calc_divs_loop pfd (data\<lparr>divo := ucast (1 + q0)\<rparr>) of
                None \<Rightarrow> None
              | Some (Inl f) \<Rightarrow> Some (Inl f)
              | Some (Inr (is_int, data)) \<Rightarrow>
                  if \<not> is_int then
                    (case calc_divs_frac pfd data of
                       Inl f \<Rightarrow> Some (Inl f)
                     | Inr data \<Rightarrow> Some (Inr (0, update_divis_regs data)))
                  else Some (Inr (0, update_divis_regs data))))"

section \<open>Writing the registers\<close>

definition idtxp_setup :: "clk_idtxp \<Rightarrow> int \<times> clk_idtxp" where
  "idtxp_setup data =
     (let (err, rm) = regmap_write (regmap data) IDTXP_REG_CONTROL 0x00;
          data = data\<lparr>regmap := rm\<rparr>
      in if err \<noteq> 0 then (err, data) else
      let (err, rm) = regmap_write (regmap data) IDTXP_REG_CONTROL 0x20;
          data = data\<lparr>regmap := rm\<rparr>
      in if err \<noteq> 0 then (err, data) else
      let (err, rm) = regmap_write (regmap data) IDTXP_REG_CONTROL 0x00;
          data = data\<lparr>regmap := rm\<rparr>
      in if err \<noteq> 0 then (err, data) else
      let (err, rm) = regmap_write (regmap data) IDTXP_REG_CONTROL 0x01;
          data = data\<lparr>regmap := rm\<rparr>
      in if err \<noteq> 0 then (err, data) else
      let (err, rm) = regmap_write (regmap data) IDTXP_REG_CONTROL 0x00;
          data = data\<lparr>regmap := rm\<rparr>
      in if err \<noteq> 0 then (err, data) else (0, data))"

text \<open>
  \<open>idtxp_write_divs_settings\<close> and \<open>idtxp_write_xo_settings\<close> read the register block
  into a local array that C does not initialise, and do not test the return code of
  that read. \<open>uninit\<close> gives the bytes the array holds before the read, which are the
  bytes it still holds after a failed one. \<open>divs_to_regs\<close> and \<open>xo_to_regs\<close> are the
  runs of \<open>set_to_reg\<close> statements of the two functions, applied to that array.
\<close>

definition divs_to_regs :: "clk_idtxp \<Rightarrow> u8 list \<Rightarrow> u8 list" where
  "divs_to_regs data reg =
     (let reg = reg[0 := set_to_reg (reg ! 0) (ucast (divo data)) 0xFF];
          reg = reg[1 := set_to_reg (reg ! 1) (divo_8 data) IDTXP_DIVO_8_MASK];
          reg = reg[1 := set_to_reg (reg ! 1) (ucast (divnint data)) IDTXP_DIVN_INT_6_0_MASK];
          reg = reg[2 := set_to_reg (reg ! 2) (bool_u8 (icp_offst_en data)) IDTXP_ICP_OFFSET_EN_MASK];
          reg = reg[2 := set_to_reg (reg ! 2) (divnint_8_7 data) IDTXP_DIVN_INT_8_7_MASK];
          reg = reg[2 := set_to_reg (reg ! 2) (icp_value data) IDTXP_ICP_VALUE_MASK];
          reg = reg[2 := set_to_reg (reg ! 2) (bool_u8 (pll_mode data)) IDTXP_PLL_MODE_MASK];
          reg = reg[3 := set_to_reg (reg ! 3) (ucast (divnfrac data)) 0xFF];
          reg = reg[4 := set_to_reg (reg ! 4) (divnfrac_15_8 data) 0xFF];
          reg = reg[5 := set_to_reg (reg ! 5) (divnfrac_23_16 data) 0xFF]
      in reg)"

definition idtxp_write_divs_settings :: "clk_idtxp \<Rightarrow> (nat \<Rightarrow> u8) \<Rightarrow> int \<times> clk_idtxp" where
  "idtxp_write_divs_settings data uninit =
     (let (err, reg, rm) = regmap_bulk_read (regmap data) IDTXP_REG_DIVO_7_0 (map uninit [0..<6]);
          data = data\<lparr>regmap := rm\<rparr>;
          data = update_divis_regs data;
          reg = divs_to_regs data reg;
          reg_seq = map (\<lambda>i. (IDTXP_REG_DIVO_7_0 + of_nat i, reg ! i)) [0..<6];
          (err, rm) = regmap_multi_reg_write (regmap data) reg_seq;
          data = data\<lparr>regmap := rm\<rparr>
      in if err \<noteq> 0 then (err, data) else (0, data))"

definition xo_to_regs :: "clk_idtxp \<Rightarrow> u8 list \<Rightarrow> u8 list" where
  "xo_to_regs data reg =
     (let reg = reg[0 := set_to_reg (reg ! 0) (bool_u8 (hsp_i2c_en (xo data))) IDTXP_HSPI2C_EN];
          reg = reg[0 := set_to_reg (reg ! 0) (bool_u8 (cmos_en (xo data))) IDTXP_CMOS_EN];
          reg = reg[1 := set_to_reg (reg ! 1) (bool_u8 (dblr_dis (xo data))) IDTXP_DBLR_DIS_MASK];
          reg = reg[1 := set_to_reg (reg ! 1) (vdd_def (xo data)) IDTXP_VDD_DEF_MASK];
          reg = reg[1 := set_to_reg (reg ! 1) (vcxo_bw (xo data)) IDTXP_VCXO_BW_MASK];
          reg = reg[2 := set_to_reg (reg ! 2) (bool_u8 (vcxo_gslope (xo data))) IDTXP_GSLOPE_MASK];
          reg = reg[2 := set_to_reg (reg ! 2) (vcxo_gexp (xo data)) IDTXP_GEXP_MASK];
          reg = reg[2 := set_to_reg (reg ! 2) (vcxo_gscale (xo data)) IDTXP_GSCALE_MASK];
          reg = reg[3 := set_to_reg (reg ! 3) (bool_u8 (oe_pol_en (xo data))) IDTXP_OE_POL_EN];
          reg = reg[3 := set_to_reg (reg ! 3) (drv_type (xo data)) IDTXP_DRV_TYPE];
          reg = reg[5 := set_to_reg (reg ! 5) (gm (xo data)) IDTXP_OT_GM_MASK];
          reg = reg[5 := set_to_reg (reg ! 5) (cap_x1 (xo data)) IDTXP_XO_CAP_MASK];
          reg = reg[6 := set_to_reg (reg ! 6) (ampslice (xo data)) IDTXP_XO_AMPSLICE_MASK];
          reg = reg[6 := set_to_reg (reg ! 6) (bool_u8 (bypass (xo data))) IDTXP_BYPASS_MASK];
          reg = reg[6 := set_to_reg (reg ! 6) (cap_x2 (xo data)) IDTXP_CAP_X2_MASK];
          reg = reg[7 := set_to_reg (reg ! 7) (bool_u8 (ot_dis (xo data))) IDTXP_OT_DIS_MASK];
          reg = reg[7 := set_to_reg (reg ! 7) (ot_res (xo data)) IDTXP_OT_RES_MASK]
      in reg)"

definition idtxp_write_xo_settings :: "clk_idtxp \<Rightarrow> (nat \<Rightarrow> u8) \<Rightarrow> int \<times> clk_idtxp" where
  "idtxp_write_xo_settings data uninit =
     (let (err, reg, rm) = regmap_bulk_read (regmap data) IDTXP_REG_HSPI2C_CMOS (map uninit [0..<8]);
          data = data\<lparr>regmap := rm\<rparr>;
          reg = xo_to_regs data reg;
          reg_seq = map (\<lambda>i. (IDTXP_REG_HSPI2C_CMOS + of_nat i, reg ! i)) [0..<8];
          (err, rm) = regmap_multi_reg_write (regmap data) reg_seq;
          data = data\<lparr>regmap := rm\<rparr>
      in if err \<noteq> 0 then (err, data) else (0, data))"

text \<open>
  \<open>settings\<close> is the array \<open>u8 settings[256]\<close>; the model reads index \<open>i\<close> of the list
  and takes 0 beyond its end (the probe only ever stores a full 256-byte array there).
\<close>

definition idtxp_write_all_settings :: "clk_idtxp \<Rightarrow> int \<times> clk_idtxp" where
  "idtxp_write_all_settings data =
     (let reg_seq = map (\<lambda>i. (of_nat i, if i < length (settings data) then settings data ! i else 0))
                        [0..<256];
          (err, rm) = regmap_multi_reg_write (regmap data) reg_seq
      in (err, data\<lparr>regmap := rm\<rparr>))"

section \<open>Clock operations and the frequency-update sequence\<close>

definition idtxp_recalc_rate :: "clk_idtxp \<Rightarrow> u64 \<Rightarrow> u64" where
  "idtxp_recalc_rate output parent_rate = ucast (req_freq output)"

definition idtxp_round_rate :: "clk_idtxp \<Rightarrow> u64 \<Rightarrow> u64 \<Rightarrow> u64" where
  "idtxp_round_rate hw rate parent_rate = rate"

text \<open>The two trigger writes to \<open>IDTXP_REG_FREQ_CHG\<close> discard their return codes.\<close>

definition idtxp_large_frequency_change ::
  "clk_idtxp \<Rightarrow> u64 \<Rightarrow> (nat \<Rightarrow> u8) \<Rightarrow> (fault + int \<times> clk_idtxp) option" where
  "idtxp_large_frequency_change data frequency uninit =
     (case idtxp_calc_divs data of
        None \<Rightarrow> None
      | Some (Inl f) \<Rightarrow> Some (Inl f)
      | Some (Inr (err, data)) \<Rightarrow>
          Some (Inr
            (if err \<noteq> 0 then (err, data) else
             let (err, data) = idtxp_calc_charge_pump data
             in if err \<noteq> 0 then (err, data) else
             let (err, data) = idtxp_write_divs_settings data uninit
             in if err \<noteq> 0 then (err, data) else
             let (err, data) = idtxp_setup data
             in if err \<noteq> 0 then (err, data) else
             let (_, rm) = regmap_write (regmap data) IDTXP_REG_FREQ_CHG 0x01;
                 (_, rm) = regmap_write rm IDTXP_REG_FREQ_CHG 0x00;
                 data = data\<lparr>regmap := rm\<rparr>;
                 data = data\<lparr>act_freq := req_freq data\<rparr>
             in (0, data))))"

definition idtxp_small_frequency_change ::
  "clk_idtxp \<Rightarrow> u64 \<Rightarrow> (nat \<Rightarrow> u8) \<Rightarrow> (fault + int \<times> clk_idtxp) option" where
  "idtxp_small_frequency_change data frequency uninit =
     (case idtxp_calc_divs data of
        None \<Rightarrow> None
      | Some (Inl f) \<Rightarrow> Some (Inl f)
      | Some (Inr (err, data)) \<Rightarrow>
          Some (Inr
            (if err \<noteq> 0 then (err, data) else
             let (err, data) = idtxp_calc_charge_pump data
             in if err \<noteq> 0 then (err, data) else
             let (err, data) = idtxp_write_divs_settings data uninit
             in if err \<noteq> 0 then (err, data) else
             let (err, data) = idtxp_setup data
             in if err \<noteq> 0 then (err, data) else
             let (_, rm) = regmap_write (regmap data) IDTXP_REG_FREQ_CHG 0x02;
                 (_, rm) = regmap_write rm IDTXP_REG_FREQ_CHG 0x00;
                 data = data\<lparr>regmap := rm\<rparr>;
                 data = data\<lparr>act_freq := req_freq data\<rparr>
             in (0, data))))"

text \<open>
  Modelled from the spec: the kernel macro \<open>abs\<close> is not part of the source file. The
  specification reads the expression as the absolute difference \<open>|new_hz - actual_hz|\<close>;
  the macro obtains it by reading its \<open>unsigned long\<close> argument as \<open>signed long\<close> and
  negating a negative value, which is what \<open>kernel_abs\<close> does on the 64-bit pattern.
\<close>

definition kernel_abs :: "u64 \<Rightarrow> u64" where
  "kernel_abs x = (if sint x < 0 then - x else x)"

definition idtxp_set_rate ::
  "clk_idtxp \<Rightarrow> u64 \<Rightarrow> u64 \<Rightarrow> (nat \<Rightarrow> u8) \<Rightarrow> (fault + int \<times> clk_idtxp) option" where
  "idtxp_set_rate data rate parent_rate uninit =
     (if rate < min_freq data \<or> rate > max_freq data then Some (Inr (- EINVAL, data))
      else
        let data = data\<lparr>req_freq := ucast rate\<rparr>
        in case div64_u64 (kernel_abs (rate - ucast (act_freq data)) * 10000)
                          (ucast (act_freq data)) of
             Inl f \<Rightarrow> Some (Inl f)
           | Inr q \<Rightarrow>
               if q < 5 then idtxp_small_frequency_change data rate uninit
               else idtxp_large_frequency_change data rate uninit)"

section \<open>Bring-up\<close>

text \<open>
  Modelled from the spec: the device tree, the memory allocator and the clock framework
  are collaborators outside the source file (section 1 of the specification). \<open>platform\<close>
  holds what they hand to \<open>idtxp_probe\<close>: each property is the value read or the error
  code of the read, each framework call its return code. \<open>clk_set_rate\<close> of the
  framework is taken to run the driver's \<open>set_rate\<close> operation on the requested rate
  (section 6: \<open>set_rate(requested)\<close> drives the update sequence).
\<close>

record platform =
  kzalloc_ok :: bool
  factory_fout :: "int + u32"
  dt_settings :: "int + u8 list"
  regmap_init :: "int + regmap"
  clk_hw_register :: int
  add_hw_provider :: int
  power_supply_voltage :: "int + u8"
  clock_frequency :: "int + u32"

text \<open>The structure as \<open>devm_kzalloc\<close> returns it: every field zero.\<close>

definition zeroed_xo :: clk_xo_setting where
  "zeroed_xo = \<lparr>hsp_i2c_en = False, cmos_en = False, dblr_dis = False, vdd_def = 0,
     vcxo_dis = False, vcxo_bw = 0, vcxo_gslope = False, vcxo_gexp = 0, vcxo_gscale = 0,
     oe_pol_en = False, drv_type = 0, gm = 0, cap_x1 = 0, ampslice = 0, bypass = False,
     cap_x2 = 0, ot_dis = False, ot_res = 0\<rparr>"

definition zeroed :: "regmap \<Rightarrow> clk_idtxp" where
  "zeroed rm = \<lparr>regmap = rm, has_settings = False, settings = replicate 256 0,
     min_freq = 0, max_freq = 0, xo = zeroed_xo, fxtal = 0, fvco = 0, divo = 0, divnint = 0,
     divnfrac = 0, req_freq = 0, act_freq = 0, icp_offst_en = False, icp_value = 0,
     pll_mode = False, divo_8 = 0, divnint_8_7 = 0, divnfrac_15_8 = 0, divnfrac_23_16 = 0\<rparr>"

text \<open>
  Modelled from the spec: \<open>clk_set_rate\<close> is a function of the clock framework, not of the
  source file; it passes the requested rate to the driver's \<open>set_rate\<close> operation.
\<close>

definition clk_set_rate :: "clk_idtxp \<Rightarrow> u64 \<Rightarrow> (nat \<Rightarrow> u8) \<Rightarrow> (fault + int \<times> clk_idtxp) option" where
  "clk_set_rate data rate uninit = idtxp_set_rate data rate 0 uninit"

text \<open>
  \<open>idtxp_probe\<close> returns its return code and, once the structure has been allocated
  and the register map created, the structure as the probe leaves it. The two
  \<open>regmap_write\<close> calls for the \<open>idtxp_xo\<close> variant and the calls of
  \<open>idtxp_calc_xo_settings\<close> and \<open>idtxp_write_xo_settings\<close> discard their return codes.
  The debugfs entries created at the end have no part in the model.
\<close>

definition idtxp_probe ::
  "platform \<Rightarrow> (nat \<Rightarrow> u8) \<Rightarrow> (fault + int \<times> clk_idtxp option) option" where
  "idtxp_probe pf uninit =
     (if \<not> kzalloc_ok pf then Some (Inr (- ENOMEM, None))
      else case factory_fout pf of
        Inl err \<Rightarrow> Some (Inr (err, None))
      | Inr fx \<Rightarrow>
      case (case dt_settings pf of
              Inr arr \<Rightarrow> Inr (True, arr)
            | Inl err \<Rightarrow> if err = - EOVERFLOW then Inl err else Inr (False, replicate 256 0)) of
        Inl err \<Rightarrow> Some (Inr (err, None))
      | Inr (has, arr) \<Rightarrow>
      case regmap_init pf of
        Inl err \<Rightarrow> Some (Inr (err, None))
      | Inr rm \<Rightarrow>
        let data = (zeroed rm)\<lparr>max_freq := of_nat IDTXP_MAX_FREQ, min_freq := of_nat IDTXP_MIN_FREQ,
                     act_freq := of_nat IDTXP_MIN_FREQ, fxtal := fx, settings := arr,
                     has_settings := has\<rparr>;
            (err, data) = idtxp_get_defaults data
        in if err \<noteq> 0 then Some (Inr (err, Some data)) else
        let (err, data) = (if has_settings data then idtxp_write_all_settings data else (0, data))
        in if err \<noteq> 0 then Some (Inr (err, Some data)) else
        let (_, rm) = regmap_write (regmap data) IDTXP_REG_HSPI2C_CMOS 0x15;
            (_, rm) = regmap_write rm IDTXP_REG_VCXO 0x2A;
            data = data\<lparr>regmap := rm\<rparr>;
            (err, data) = idtxp_get_defaults data
        in if err \<noteq> 0 then Some (Inr (err, Some data)) else
        if clk_hw_register pf \<noteq> 0 then Some (Inr (clk_hw_register pf, Some data)) else
        if add_hw_provider pf \<noteq> 0 then Some (Inr (add_hw_provider pf, Some data)) else
        let data = (case power_supply_voltage pf of
                      Inr v \<Rightarrow> data\<lparr>xo := (xo data)\<lparr>vdd_def := v\<rparr>\<rparr>
                    | Inl _ \<Rightarrow> data);
            (_, data) = idtxp_calc_xo_settings data;
            (_, data) = idtxp_write_xo_settings data uninit
        in case clock_frequency pf of
             Inl _ \<Rightarrow> Some (Inr (0, Some data))
           | Inr f \<Rightarrow>
               let data = data\<lparr>req_freq := f\<rparr>
               in case clk_set_rate data (ucast (req_freq data)) uninit of
                    None \<Rightarrow> None
                  | Some (Inl flt) \<Rightarrow> Some (Inl flt)
                  | Some (Inr (err, data)) \<Rightarrow> Some (Inr (err, Some data)))"

declare calc_divs_loop.simps [code]

section \<open>Predicates used in the proofs\<close>

text \<open>
  \<open>loop_pre\<close> is what holds whenever the search loop is entered or re-entered on a
  supported input: the phase-detector frequency lies between 80 and 166 MHz and the VCO
  frequency for the current \<open>divo\<close> is above \<open>FVCO_MIN\<close>. \<open>loop_post\<close> is what the loop
  guarantees on return; its second part describes an exact integer solution.
\<close>

definition loop_pre :: "u32 \<Rightarrow> clk_idtxp \<Rightarrow> bool" where
  "loop_pre pfd data \<longleftrightarrow>
     80000000 \<le> unat pfd \<and> unat pfd \<le> 166000000 \<and>
     4 \<le> unat (divo data) \<and> unat (divo data) \<le> 511 \<and>
     FVCO_MIN < unat (req_freq data) * unat (divo data)"

definition loop_post :: "clk_idtxp \<Rightarrow> bool \<Rightarrow> clk_idtxp \<Rightarrow> bool" where
  "loop_post data b d' \<longleftrightarrow>
     req_freq d' = req_freq data \<and> divnfrac d' = divnfrac data \<and>
     (b \<longrightarrow> 4 \<le> unat (divo d') \<and> unat (divo d') < 511 \<and>
        unat (fvco d') = unat (req_freq d') * unat (divo d') \<and>
        FVCO_MIN < unat (fvco d') \<and> unat (fvco d') \<le> FVCO_MAX \<and>
        41 \<le> unat (divnint d') \<and> unat (divnint d') \<le> 108)"

definition frac_post :: "clk_idtxp \<Rightarrow> clk_idtxp \<Rightarrow> bool" where
  "frac_post data d' \<longleftrightarrow>
     req_freq d' = req_freq data \<and>
     unat (divo d') = 1 + 6860000000 div unat (req_freq data) \<and>
     unat (fvco d') = unat (req_freq data) * unat (divo d') \<and>
     41 \<le> unat (divnint d') \<and> unat (divnint d') \<le> 109 \<and>
     unat (divnfrac d') \<le> 16777216"

definition divs_ok :: "clk_idtxp \<Rightarrow> clk_idtxp \<Rightarrow> bool" where
  "divs_ok data d' \<longleftrightarrow>
     DIVO_MIN \<le> unat (divo d') \<and> unat (divo d') \<le> DIVO_MAX \<and>
     DIVN_MIN \<le> unat (divnint d') \<and> unat (divnint d') \<le> DIVN_MAX \<and>
     FVCO_MIN \<le> unat (fvco d') \<and> unat (fvco d') \<le> FVCO_MAX \<and>
     unat (fvco d') = unat (req_freq data) * unat (divo d') \<and>
     unat (divnfrac d') \<le> 2 ^ 24"

section \<open>Concrete states\<close>

text \<open>
  A register port whose registers all read 0 and whose transactions all succeed, and the
  same port with a given list of transaction return codes.
\<close>

definition idle_port :: regmap where
  "idle_port = \<lparr>chip = (\<lambda>_. 0), written = [], faults = []\<rparr>"

definition faulty_port :: "int list \<Rightarrow> regmap" where
  "faulty_port fs = \<lparr>chip = (\<lambda>_. 0), written = [], faults = fs\<rparr>"

text \<open>
  The structure as the probe leaves it when every transaction succeeds, for a crystal of
  \<open>fx\<close> Hz: the bounds and \<open>act_freq\<close> set by \<open>idtxp_probe\<close>, the XO fields computed by
  \<open>idtxp_calc_xo_settings\<close>, and \<open>rq\<close> as the requested frequency.
\<close>

definition brought_up :: "u32 \<Rightarrow> u32 \<Rightarrow> clk_idtxp" where
  "brought_up fx rq =
     snd (idtxp_calc_xo_settings
       ((zeroed idle_port)\<lparr>max_freq := of_nat IDTXP_MAX_FREQ, min_freq := of_nat IDTXP_MIN_FREQ,
          act_freq := of_nat IDTXP_MIN_FREQ, fxtal := fx, req_freq := rq\<rparr>))"

text \<open>
  \<open>running fs\<close> is the brought-up structure for a 50 MHz crystal on a port whose coming
  transactions return the codes \<open>fs\<close>; \<open>running_at a\<close> is that structure on a port
  without faults, currently producing \<open>a\<close> Hz. \<open>bring_up fx cf\<close> is a platform on which
  every call succeeds, with the crystal frequency \<open>fx\<close>, no \<open>settings\<close> array, no
  supply-voltage property and \<open>cf\<close> as the result of reading \<open>clock-frequency\<close>.
\<close>

definition running :: "int list \<Rightarrow> clk_idtxp" where
  "running fs = (brought_up 50000000 16000000)\<lparr>regmap := faulty_port fs\<rparr>"

definition running_at :: "u32 \<Rightarrow> clk_idtxp" where
  "running_at a = (running [])\<lparr>act_freq := a\<rparr>"

definition bring_up :: "u32 \<Rightarrow> int + u32 \<Rightarrow> platform" where
  "bring_up fx cf = \<lparr>kzalloc_ok = True, factory_fout = Inr fx, dt_settings = Inl (- EINVAL),
     regmap_init = Inr idle_port, clk_hw_register = 0, add_hw_provider = 0,
     power_supply_voltage = Inl (- EINVAL), clock_frequency = cf\<rparr>"

section \<open>Word arithmetic of the solver\<close>

lemma unat_up_32_64: "unat (ucast (x :: u32) :: u64) = unat x"
  by (simp add: unsigned_ucast_eq take_bit_nat_eq_self_iff order_less_trans[OF unsigned_less])

lemma unat_up_16_64: "unat (ucast (x :: u16) :: u64) = unat x"
  by (simp add: unsigned_ucast_eq take_bit_nat_eq_self_iff order_less_trans[OF unsigned_less])

lemma unat_down_16: "unat (x :: u64) < 65536 \<Longrightarrow> unat (ucast x :: u16) = unat x"
  by (simp add: unsigned_ucast_eq take_bit_nat_eq_self_iff)

lemma unat_down_32: "unat (x :: u64) < 4294967296 \<Longrightarrow> unat (ucast x :: u32) = unat x"
  by (simp add: unsigned_ucast_eq take_bit_nat_eq_self_iff)

lemma unat_lt_32: "unat (x :: u32) < 4294967296"
  using unsigned_less[of x] by simp

lemma unat_lt_16: "unat (x :: u16) < 65536"
  using unsigned_less[of x] by simp

lemma unat_fvco: "unat (ucast (r :: u32) * ucast (dv :: u16) :: u64) = unat r * unat dv"
proof -
  have "unat r * unat dv < 4294967296 * 65536"
    using unat_lt_32[of r] unat_lt_16[of dv] by (intro mult_strict_mono) simp_all
  then show ?thesis
    by (simp add: unat_word_ariths unat_up_32_64 unat_up_16_64)
qed

lemma quot_bounds:
  fixes v p :: nat
  assumes "6860000000 < v" "v \<le> 8650000000" "80000000 \<le> p" "p \<le> 166000000"
  shows "41 \<le> v div p" "v div p \<le> 108"
proof -
  have p0: "0 < p" using assms by simp
  have "41 * p \<le> v" using assms by simp
  then show "41 \<le> v div p" using p0 by (simp add: less_eq_div_iff_mult_less_eq)
  have "v < 109 * p" using assms by simp
  then have "v div p < 109" using p0 by (simp add: div_less_iff_less_mult)
  then show "v div p \<le> 108" by simp
qed


section \<open>The divider search loop returns\<close>

lemma loop_returns:
  "loop_pre pfd data \<Longrightarrow> n = 511 - unat (divo data) \<Longrightarrow>
   (case calc_divs_loop pfd data of Some (Inr (b, d')) \<Rightarrow> loop_post data b d' | _ \<Rightarrow> False)"
proof (induction n arbitrary: data)
  case 0
  then have "\<not> unat (divo data) < DIVO_MAX" by (simp add: DIVO_MAX_def)
  then show ?case
    by (subst calc_divs_loop.simps) (simp add: loop_post_def)
next
  case (Suc n)
  let ?v = "unat (req_freq data) * unat (divo data)"
  from Suc.prems have lt: "unat (divo data) < 511" by simp
  from Suc.prems(1) have pre: "80000000 \<le> unat pfd" "unat pfd \<le> 166000000"
    "4 \<le> unat (divo data)" "FVCO_MIN < ?v"
    by (simp_all add: loop_pre_def)
  have pfd0: "(ucast pfd :: u64) \<noteq> 0"
    using pre(1) by (metis unat_up_32_64 unat_0 not_numeral_le_zero)
  show ?case
  proof (cases "?v > FVCO_MAX")
    case True
    then show ?thesis
      using lt by (subst calc_divs_loop.simps) (simp add: loop_post_def DIVO_MAX_def unat_fvco Let_def)
  next
    case False
    then have le: "?v \<le> 8650000000" by (simp add: FVCO_MAX_def)
    have gt: "6860000000 < ?v" using pre(4) by (simp add: FVCO_MIN_def)
    note qb = quot_bounds[OF gt le pre(1,2)]
    let ?q = "(ucast (req_freq data) * ucast (divo data) :: u64) div ucast pfd"
    have uq: "unat ?q = ?v div unat pfd"
      by (simp add: unat_div unat_fvco unat_up_32_64)
    have uq16: "unat (ucast ?q :: u16) = ?v div unat pfd"
      using qb(2) by (subst unat_down_16) (simp_all add: uq)
    show ?thesis
    proof (cases "(ucast (req_freq data) * ucast (divo data) :: u64) mod ucast pfd = 0")
      case True
      show ?thesis
        apply (subst calc_divs_loop.simps)
        using lt False pfd0 True qb pre gt
        apply (simp add: loop_post_def DIVO_MAX_def unat_fvco Let_def div64_u64_rem_def uq16
            DIVN_MIN_def DIVN_MAX_def FVCO_MAX_def FVCO_MIN_def)
        done
    next
      case nz: False
      let ?d2 = "data\<lparr>fvco := ucast (req_freq data) * ucast (divo data), divnint := ucast ?q,
                     divo := divo data + 1\<rparr>"
      have u1: "unat (divo data + 1) = unat (divo data) + 1"
        using lt by (simp add: unat_word_ariths)
      have "loop_pre pfd ?d2"
        using pre lt by (simp add: loop_pre_def u1)
      moreover have "n = 511 - unat (divo ?d2)"
        using Suc.prems(2) by (simp add: u1)
      ultimately have r: "case calc_divs_loop pfd ?d2 of Some (Inr (b, d')) \<Rightarrow> loop_post ?d2 b d' | _ \<Rightarrow> False"
        by (rule Suc.IH)
      then obtain b d' where r': "calc_divs_loop pfd ?d2 = Some (Inr (b, d'))" "loop_post ?d2 b d'"
        by (auto split: option.splits sum.splits)
      show ?thesis
        apply (subst calc_divs_loop.simps)
        using lt False pfd0 nz qb r'
        apply (auto simp add: loop_post_def DIVO_MAX_def unat_fvco Let_def div64_u64_rem_def uq16
            DIVN_MIN_def DIVN_MAX_def FVCO_MAX_def)
        done
    qed
  qed
qed


lemma first_guess:
  fixes r :: nat
  assumes "16000000 \<le> r" "r \<le> 2100000000"
  shows "3 \<le> 6860000000 div r" "6860000000 div r \<le> 428"
    "6860000000 < r * (1 + 6860000000 div r)" "r * (1 + 6860000000 div r) \<le> 8650000000"
proof -
  let ?k = "6860000000 div r"
  have r0: "0 < r" using assms by simp
  have "3 * r \<le> 6860000000" using assms by simp
  then show k3: "3 \<le> ?k" using r0 by (simp add: less_eq_div_iff_mult_less_eq)
  have "6860000000 < 429 * r" using assms by simp
  then have "?k < 429" using r0 by (simp add: div_less_iff_less_mult)
  then show "?k \<le> 428" by simp
  have "6860000000 < (?k + 1) * r"
    using r0 by (metis Suc_eq_plus1 dividend_less_div_times mult.commute mult_Suc)
  then show "6860000000 < r * (1 + ?k)" by (simp add: mult.commute)
  have kr: "?k * r \<le> 6860000000" by simp
  show "r * (1 + ?k) \<le> 8650000000"
  proof (cases "4 \<le> ?k")
    case True
    then have "4 * r \<le> ?k * r" by (rule mult_le_mono1)
    then have "r \<le> 1715000000" using kr by linarith
    moreover have "r * (1 + ?k) = r + ?k * r" by (simp add: algebra_simps)
    ultimately show ?thesis using kr by linarith
  next
    case False
    then have "?k = 3" using k3 by simp
    then show ?thesis using assms by simp
  qed
qed

lemma first_guess_word:
  assumes "16000000 \<le> unat (r :: u32)" "unat r \<le> 2100000000"
  shows "unat (ucast (1 + (of_nat FVCO_MIN :: u64) div ucast r) :: u16) = 1 + 6860000000 div unat r"
proof -
  have q: "unat ((of_nat FVCO_MIN :: u64) div ucast r) = 6860000000 div unat r"
    by (simp add: unat_div unat_up_32_64 FVCO_MIN_def)
  have "unat (1 :: u64) + unat ((of_nat FVCO_MIN :: u64) div ucast r) < 2 ^ LENGTH(64)"
    using first_guess(2)[OF assms] by (simp only: q) simp
  then have "unat (1 + (of_nat FVCO_MIN :: u64) div ucast r) =
      unat (1 :: u64) + unat ((of_nat FVCO_MIN :: u64) div ucast r)"
    by (simp only: unat_add_lem)
  then have "unat (1 + (of_nat FVCO_MIN :: u64) div ucast r) = 1 + 6860000000 div unat r"
    by (simp only: q) simp
  then show ?thesis
    using first_guess(2)[OF assms] by (subst unat_down_16) simp_all
qed


section \<open>The divider solver on supported inputs\<close>

lemma xo_fix_cases:
  assumes "fst (idtxp_calc_xo_settings d) = 0"
      "dblr_dis (xo (snd (idtxp_calc_xo_settings d))) = dblr_dis (xo d)"
  shows "(40000000 \<le> unat (fxtal d) \<and> unat (fxtal d) \<le> 80000000 \<and> \<not> dblr_dis (xo d)) \<or>
         (100000000 \<le> unat (fxtal d) \<and> unat (fxtal d) \<le> 166000000 \<and> dblr_dis (xo d))"
  using assms(2) assms(1)
  by (auto simp add: idtxp_calc_xo_settings_def EINVAL_def word_le_nat_alt word_less_nat_alt
      split: if_splits)

lemma pfd_bounds:
  assumes "fst (idtxp_calc_xo_settings d) = 0"
      "dblr_dis (xo (snd (idtxp_calc_xo_settings d))) = dblr_dis (xo d)"
  shows "80000000 \<le> unat (fxtal d * (if dblr_dis (xo d) then 1 else 2))"
    and "unat (fxtal d * (if dblr_dis (xo d) then 1 else 2)) \<le> 166000000"
proof -
  from xo_fix_cases[OF assms] consider
    (a) "40000000 \<le> unat (fxtal d)" "unat (fxtal d) \<le> 80000000" "\<not> dblr_dis (xo d)" |
    (b) "100000000 \<le> unat (fxtal d)" "unat (fxtal d) \<le> 166000000" "dblr_dis (xo d)"
    by auto
  then have "80000000 \<le> unat (fxtal d * (if dblr_dis (xo d) then 1 else 2)) \<and>
     unat (fxtal d * (if dblr_dis (xo d) then 1 else 2)) \<le> 166000000"
  proof cases
    case a
    then have "unat (fxtal d * 2) = unat (fxtal d) * 2"
      by (simp add: unat_word_ariths)
    then show ?thesis using a by simp
  next
    case b
    then show ?thesis by simp
  qed
  then show "80000000 \<le> unat (fxtal d * (if dblr_dis (xo d) then 1 else 2))"
    and "unat (fxtal d * (if dblr_dis (xo d) then 1 else 2)) \<le> 166000000" by simp_all
qed


lemma unat_succ_16: "unat (x :: u16) \<le> 108 \<Longrightarrow> unat (x + 1) = unat x + 1"
  by (simp add: unat_word_ariths)

lemma unat_succ_32: "unat (x :: u32) < 16777216 \<Longrightarrow> unat (x + 1) = unat x + 1"
  by (simp add: unat_word_ariths)

lemma unat_shift_rem:
  assumes "unat (x :: u64) < 166000000"
  shows "unat (push_bit 24 x) = unat x * 16777216"
proof -
  have "unat x * 16777216 < 2 ^ 64" using assms by simp
  then show ?thesis
    by (simp add: push_bit_eq_mult unat_word_ariths)
qed

lemma frac_quot:
  fixes a p :: nat
  assumes "a < p"
  shows "a * 16777216 div p < 16777216"
proof -
  have "a * 16777216 < 16777216 * p" using assms by simp
  moreover have "0 < p" using assms by simp
  ultimately show ?thesis by (simp add: div_less_iff_less_mult)
qed

lemma unat_quot_16:
  assumes "unat (fv :: u64) div unat (p :: u32) \<le> 108"
  shows "unat (ucast (fv div ucast p) :: u16) = unat fv div unat p"
proof -
  have "unat (fv div ucast p) = unat fv div unat p"
    by (simp add: unat_div unat_up_32_64)
  then show ?thesis
    using assms by (simp add: unat_down_16)
qed

lemma unat_quot_frac:
  assumes "80000000 \<le> unat (p :: u32)" "unat p \<le> 166000000"
  shows "unat (ucast (push_bit 24 ((fv :: u64) mod ucast p) div ucast p) :: u32)
           = (unat fv mod unat p) * 16777216 div unat p"
    and "(unat fv mod unat p) * 16777216 div unat p < 16777216"
proof -
  have urem: "unat (fv mod ucast p) = unat fv mod unat p"
    by (simp add: unat_mod unat_up_32_64)
  have remlt: "unat fv mod unat p < unat p"
    using assms(1) by simp
  have "unat (push_bit 24 (fv mod ucast p)) = unat (fv mod ucast p) * 16777216"
    using remlt assms(2) by (intro unat_shift_rem) (simp add: urem)
  then have uq2: "unat (push_bit 24 (fv mod ucast p) div ucast p)
      = (unat fv mod unat p) * 16777216 div unat p"
    by (simp add: unat_div unat_up_32_64 urem)
  show lt: "(unat fv mod unat p) * 16777216 div unat p < 16777216"
    by (rule frac_quot[OF remlt])
  show "unat (ucast (push_bit 24 (fv mod ucast p) div ucast p) :: u32)
           = (unat fv mod unat p) * 16777216 div unat p"
    using lt by (simp add: unat_down_32 uq2)
qed

lemma frac_result:
  assumes pfd: "80000000 \<le> unat pfd" "unat pfd \<le> 166000000"
    and r: "16000000 \<le> unat (req_freq data)" "unat (req_freq data) \<le> 2100000000"
  shows "case calc_divs_frac pfd data of Inr d' \<Rightarrow> frac_post data d' | Inl f \<Rightarrow> False"
proof -
  let ?r = "req_freq data"
  let ?divo = "ucast (1 + (of_nat FVCO_MIN :: u64) div ucast ?r) :: u16"
  let ?fv = "ucast ?r * ucast ?divo :: u64"
  let ?q = "?fv div ucast pfd"
  let ?q2 = "push_bit 24 (?fv mod ucast pfd) div ucast pfd"
  have r0: "?r \<noteq> 0" using r(1) by (metis unat_0 not_numeral_le_zero)
  have pfd0: "(ucast pfd :: u64) \<noteq> 0"
    using pfd(1) by (metis unat_up_32_64 unat_0 not_numeral_le_zero)
  have udivo: "unat ?divo = 1 + 6860000000 div unat ?r"
    by (rule first_guess_word[OF r])
  have ufv: "unat ?fv = unat ?r * unat ?divo"
    by (rule unat_fvco)
  have fvb: "6860000000 < unat ?fv" "unat ?fv \<le> 8650000000"
    using first_guess(3,4)[OF r] by (simp_all only: ufv udivo)
  note qb = quot_bounds[OF fvb pfd]
  have uq16: "unat (ucast ?q :: u16) = unat ?fv div unat pfd"
    by (rule unat_quot_16[OF qb(2)])
  note q2 = unat_quot_frac[OF pfd, of ?fv]
  have A: "unat (ucast ?q2 + 1 :: u32) = (unat ?fv mod unat pfd) * 16777216 div unat pfd + 1"
    using q2(2) by (subst unat_succ_32) (simp_all only: q2(1))
  have B: "unat (ucast ?q + 1 :: u16) = unat ?fv div unat pfd + 1"
    using qb(2) by (subst unat_succ_16) (simp_all only: uq16)
  show ?thesis
    using r0 pfd0 qb q2(2)
    by (simp add: calc_divs_frac_def div_u64_def div64_u64_rem_def div64_u64_def Let_def
        frac_post_def udivo[simplified] ufv[simplified] uq16[simplified] q2(1)[simplified] A[simplified] B[simplified])
qed


lemma update_divis_regs_keeps:
  "divo (update_divis_regs d) = divo d" "divnint (update_divis_regs d) = divnint d"
  "divnfrac (update_divis_regs d) = divnfrac d" "fvco (update_divis_regs d) = fvco d"
  "req_freq (update_divis_regs d) = req_freq d"
  by (simp_all add: update_divis_regs_def Let_def)

lemma divs_ok_update: "divs_ok data d' \<Longrightarrow> divs_ok data (update_divis_regs d')"
  by (simp add: divs_ok_def update_divis_regs_keeps)

lemma calc_divs_start:
  assumes xo: "fst (idtxp_calc_xo_settings d) = 0"
      "dblr_dis (xo (snd (idtxp_calc_xo_settings d))) = dblr_dis (xo d)"
    and r: "16000000 \<le> unat (req_freq d)" "unat (req_freq d) \<le> 2100000000"
  shows "loop_pre (fxtal d * (if dblr_dis (xo d) then 1 else 2))
           (d\<lparr>divnfrac := 0, divo := ucast (1 + (of_nat FVCO_MIN :: u64) div ucast (req_freq d))\<rparr>)"
proof -
  let ?start = "d\<lparr>divnfrac := 0, divo := ucast (1 + (of_nat FVCO_MIN :: u64) div ucast (req_freq d))\<rparr>"
  have u: "unat (divo ?start) = 1 + 6860000000 div unat (req_freq d)"
    by (simp add: first_guess_word[OF r])
  have q: "req_freq ?start = req_freq d" by simp
  note g = first_guess[OF r]
  have "4 \<le> unat (divo ?start)" "unat (divo ?start) \<le> 511"
    using g(1,2) by (simp_all only: u)
  moreover have "6860000000 < unat (req_freq ?start) * unat (divo ?start)"
    using g(3) by (simp only: u q)
  then have "FVCO_MIN < unat (req_freq ?start) * unat (divo ?start)"
    by (simp only: FVCO_MIN_def)
  ultimately show ?thesis
    using pfd_bounds[OF xo] by (simp only: loop_pre_def)
qed

lemma calc_divs_supported:
  assumes xo: "fst (idtxp_calc_xo_settings d) = 0"
      "dblr_dis (xo (snd (idtxp_calc_xo_settings d))) = dblr_dis (xo d)"
    and r: "16000000 \<le> unat (req_freq d)" "unat (req_freq d) \<le> 2100000000"
  shows "case idtxp_calc_divs d of Some (Inr (err, d')) \<Rightarrow> err = 0 \<and> divs_ok d d' | _ \<Rightarrow> False"
proof -
  let ?pfd = "fxtal d * (if dblr_dis (xo d) then 1 else 2)"
  let ?start = "d\<lparr>divnfrac := 0, divo := ucast (1 + (of_nat FVCO_MIN :: u64) div ucast (req_freq d))\<rparr>"
  have r0: "req_freq d \<noteq> 0" using r(1) by (metis unat_0 not_numeral_le_zero)
  note pb = pfd_bounds[OF xo]
  have "case calc_divs_loop ?pfd ?start of Some (Inr (b, d')) \<Rightarrow> loop_post ?start b d' | _ \<Rightarrow> False"
    by (rule loop_returns[OF calc_divs_start[OF xo r] refl])
  then obtain b d1 where L: "calc_divs_loop ?pfd ?start = Some (Inr (b, d1))" "loop_post ?start b d1"
    by (auto split: option.splits sum.splits)
  show ?thesis
  proof (cases b)
    case True
    with L(2) have f: "req_freq d1 = req_freq d" "divnfrac d1 = 0" "4 \<le> unat (divo d1)"
      "unat (divo d1) < 511" "unat (fvco d1) = unat (req_freq d1) * unat (divo d1)"
      "FVCO_MIN < unat (fvco d1)" "unat (fvco d1) \<le> FVCO_MAX"
      "41 \<le> unat (divnint d1)" "unat (divnint d1) \<le> 108"
      by (auto simp add: loop_post_def)
    have "unat (fvco d1) = unat (req_freq d) * unat (divo d1)"
      using f(5) by (simp only: f(1))
    then have "divs_ok d d1"
      using f(2-4,6-) by (simp add: divs_ok_def DIVO_MIN_def DIVO_MAX_def DIVN_MIN_def DIVN_MAX_def)
    then have "divs_ok d (update_divis_regs d1)" by (rule divs_ok_update)
    then show ?thesis
      using r0 L(1) True by (simp add: idtxp_calc_divs_def div_u64_def Let_def)
  next
    case False
    have rq: "req_freq d1 = req_freq d" using L(2) by (simp add: loop_post_def)
    have "case calc_divs_frac ?pfd d1 of Inr d' \<Rightarrow> frac_post d1 d' | Inl f \<Rightarrow> False"
      using r by (intro frac_result[OF pb]) (simp_all only: rq)
    then obtain d2 where F: "calc_divs_frac ?pfd d1 = Inr d2" "frac_post d1 d2"
      by (auto split: sum.splits)
    from F(2) have f: "unat (divo d2) = 1 + 6860000000 div unat (req_freq d)"
      "unat (fvco d2) = unat (req_freq d) * unat (divo d2)"
      "41 \<le> unat (divnint d2)" "unat (divnint d2) \<le> 109" "unat (divnfrac d2) \<le> 16777216"
      by (simp_all add: frac_post_def rq)
    note g = first_guess[OF r]
    have "4 \<le> unat (divo d2)" "unat (divo d2) \<le> 511"
      using g(1,2) by (simp_all only: f(1))
    moreover have "FVCO_MIN \<le> unat (fvco d2)" "unat (fvco d2) \<le> FVCO_MAX"
      using g(3,4) by (simp_all only: f(1,2) FVCO_MIN_def FVCO_MAX_def)
    ultimately have "divs_ok d d2"
      using f(2-) by (simp add: divs_ok_def DIVO_MIN_def DIVO_MAX_def DIVN_MIN_def DIVN_MAX_def)
    then have "divs_ok d (update_divis_regs d2)" by (rule divs_ok_update)
    then show ?thesis
      using r0 L(1) F(1) False by (simp add: idtxp_calc_divs_def div_u64_def Let_def)
  qed
qed


lemmas eval_defs = brought_up_def zeroed_def zeroed_xo_def idle_port_def idtxp_calc_xo_settings_def
  IDTXP_MIN_FREQ_def IDTXP_MAX_FREQ_def EINVAL_def

lemmas solver_defs = idtxp_calc_divs_def div_u64_def FVCO_MIN_def calc_divs_loop.simps
    DIVO_MAX_def FVCO_MAX_def DIVN_MIN_def DIVN_MAX_def div64_u64_rem_def div64_u64_def
    calc_divs_frac_def update_divis_regs_def Let_def


text \<open>
  Claim C1. Let the structure hold a reference frequency in a supported XO-trim band
  (\<open>idtxp_calc_xo_settings\<close> returns 0) together with the doubler setting that
  \<open>idtxp_calc_xo_settings\<close> gives that band, and a requested frequency between 16 MHz
  and 2.1 GHz. Then the search loop
  of \<open>idtxp_calc_divs\<close>, started as the function starts it, returns: it does not stay
  forever in the \<open>continue\<close> branch. In consequence \<open>idtxp_calc_divs\<close> itself returns,
  with code 0 and without a divide error.
\<close>

theorem idtxp_calc_divs_loop_terminates:
  assumes xo: "fst (idtxp_calc_xo_settings d) = 0"
      "dblr_dis (xo (snd (idtxp_calc_xo_settings d))) = dblr_dis (xo d)"
    and rq: "IDTXP_MIN_FREQ \<le> unat (req_freq d)" "unat (req_freq d) \<le> IDTXP_MAX_FREQ"
  shows "(\<exists>is_int d'. calc_divs_loop (fxtal d * (if dblr_dis (xo d) then 1 else 2))
            (d\<lparr>divnfrac := 0, divo := ucast (1 + (of_nat FVCO_MIN :: u64) div ucast (req_freq d))\<rparr>)
             = Some (Inr (is_int, d')))
       \<and> (\<exists>d'. idtxp_calc_divs d = Some (Inr (0, d')))"
proof -
  have r: "16000000 \<le> unat (req_freq d)" "unat (req_freq d) \<le> 2100000000"
    using rq by (simp_all add: IDTXP_MIN_FREQ_def IDTXP_MAX_FREQ_def)
  let ?pfd = "fxtal d * (if dblr_dis (xo d) then 1 else 2)"
  let ?start = "d\<lparr>divnfrac := 0, divo := ucast (1 + (of_nat FVCO_MIN :: u64) div ucast (req_freq d))\<rparr>"
  have "case calc_divs_loop ?pfd ?start of Some (Inr (b, d')) \<Rightarrow> loop_post ?start b d' | _ \<Rightarrow> False"
    by (rule loop_returns[OF calc_divs_start[OF xo r] refl])
  then obtain b d1 where L: "calc_divs_loop ?pfd ?start = Some (Inr (b, d1))"
    by (cases "calc_divs_loop ?pfd ?start") (auto split: sum.splits)
  have "case idtxp_calc_divs d of Some (Inr (err, d')) \<Rightarrow> err = 0 \<and> divs_ok d d' | _ \<Rightarrow> False"
    by (rule calc_divs_supported[OF xo r])
  then obtain d2 where C: "idtxp_calc_divs d = Some (Inr (0, d2))"
    by (cases "idtxp_calc_divs d") (auto split: sum.splits)
  from L C show ?thesis by blast
qed


theorem idtxp_calc_divs_loop_terminates_witness:
  "fst (idtxp_calc_xo_settings (brought_up 49152000 156250000)) = 0
   \<and> dblr_dis (xo (snd (idtxp_calc_xo_settings (brought_up 49152000 156250000))))
       = dblr_dis (xo (brought_up 49152000 156250000))
   \<and> IDTXP_MIN_FREQ \<le> unat (req_freq (brought_up 49152000 156250000))
   \<and> unat (req_freq (brought_up 49152000 156250000)) \<le> IDTXP_MAX_FREQ
   \<and> (\<exists>d'. idtxp_calc_divs (brought_up 49152000 156250000) = Some (Inr (0, d')))"
proof -
  have h1: "fst (idtxp_calc_xo_settings (brought_up 49152000 156250000)) = 0"
    "dblr_dis (xo (snd (idtxp_calc_xo_settings (brought_up 49152000 156250000))))
       = dblr_dis (xo (brought_up 49152000 156250000))"
    by (simp_all add: eval_defs)
  have h2: "IDTXP_MIN_FREQ \<le> unat (req_freq (brought_up 49152000 156250000))"
    by (simp add: eval_defs)
  have h3: "unat (req_freq (brought_up 49152000 156250000)) \<le> IDTXP_MAX_FREQ"
    by (simp add: eval_defs)
  show ?thesis
    using idtxp_calc_divs_loop_terminates [OF h1 h2 h3] h1 h2 h3 by blast
qed

text \<open>
  Claim C2, as stated, bounds \<open>feedback_frac\<close> by \<open>2 ^ 24\<close> exclusively. With an 80 MHz
  crystal (doubler on, 160 MHz at the phase detector) and a request of 1 097 142 857 Hz
  the solver takes the fractional path at \<open>divo = 7\<close>; the remainder is one short of
  the divisor, the quotient \<open>2 ^ 24 - 1\<close> is rounded up, and \<open>divnfrac\<close> is left equal
  to \<open>2 ^ 24\<close>.
\<close>

theorem idtxp_calc_divs_frac_carry_counterexample:
  "fst (idtxp_calc_xo_settings (brought_up 80000000 1097142857)) = 0
   \<and> dblr_dis (xo (snd (idtxp_calc_xo_settings (brought_up 80000000 1097142857))))
       = dblr_dis (xo (brought_up 80000000 1097142857))
   \<and> IDTXP_MIN_FREQ \<le> unat (req_freq (brought_up 80000000 1097142857))
   \<and> unat (req_freq (brought_up 80000000 1097142857)) \<le> IDTXP_MAX_FREQ
   \<and> (case idtxp_calc_divs (brought_up 80000000 1097142857) of
        Some (Inr (err, d')) \<Rightarrow> \<not> unat (divnfrac d') < 2 ^ 24 \<and> divnfrac d' = 2 ^ 24
      | _ \<Rightarrow> False)"
  by (simp add: eval_defs solver_defs)

text \<open>
  Claim C2, amended: on the same inputs as in C1, \<open>idtxp_calc_divs\<close> returns 0 and leaves
  \<open>DIVO_MIN \<le> divo \<le> DIVO_MAX\<close>, \<open>DIVN_MIN \<le> divnint \<le> DIVN_MAX\<close>,
  \<open>FVCO_MIN \<le> fvco \<le> FVCO_MAX\<close>, \<open>fvco = req_freq * divo\<close> exactly, and
  \<open>divnfrac \<le> 2 ^ 24\<close> (the bound is inclusive).
\<close>

theorem idtxp_calc_divs_invariants:
  assumes xo: "fst (idtxp_calc_xo_settings d) = 0"
      "dblr_dis (xo (snd (idtxp_calc_xo_settings d))) = dblr_dis (xo d)"
    and rq: "IDTXP_MIN_FREQ \<le> unat (req_freq d)" "unat (req_freq d) \<le> IDTXP_MAX_FREQ"
  shows "case idtxp_calc_divs d of
           Some (Inr (err, d')) \<Rightarrow>
             err = 0 \<and>
             DIVO_MIN \<le> unat (divo d') \<and> unat (divo d') \<le> DIVO_MAX \<and>
             DIVN_MIN \<le> unat (divnint d') \<and> unat (divnint d') \<le> DIVN_MAX \<and>
             FVCO_MIN \<le> unat (fvco d') \<and> unat (fvco d') \<le> FVCO_MAX \<and>
             unat (fvco d') = unat (req_freq d) * unat (divo d') \<and>
             unat (divnfrac d') \<le> 2 ^ 24
         | _ \<Rightarrow> False"
proof -
  have r: "16000000 \<le> unat (req_freq d)" "unat (req_freq d) \<le> 2100000000"
    using rq by (simp_all add: IDTXP_MIN_FREQ_def IDTXP_MAX_FREQ_def)
  have "case idtxp_calc_divs d of Some (Inr (err, d')) \<Rightarrow> err = 0 \<and> divs_ok d d' | _ \<Rightarrow> False"
    by (rule calc_divs_supported[OF xo r])
  then show ?thesis
    by (cases "idtxp_calc_divs d") (auto simp add: divs_ok_def split: sum.splits)
qed

theorem idtxp_calc_divs_invariants_witness:
  "fst (idtxp_calc_xo_settings (brought_up 49152000 156250000)) = 0
   \<and> dblr_dis (xo (snd (idtxp_calc_xo_settings (brought_up 49152000 156250000))))
       = dblr_dis (xo (brought_up 49152000 156250000))
   \<and> IDTXP_MIN_FREQ \<le> unat (req_freq (brought_up 49152000 156250000))
   \<and> unat (req_freq (brought_up 49152000 156250000)) \<le> IDTXP_MAX_FREQ
   \<and> (case idtxp_calc_divs (brought_up 49152000 156250000) of
        Some (Inr (err, d')) \<Rightarrow>
          err = 0 \<and> divo d' = 44 \<and> divnint d' = 70 \<and> divnfrac d' = 15705429 \<and>
          fvco d' = 6875000000 \<and>
          DIVO_MIN \<le> unat (divo d') \<and> unat (divo d') \<le> DIVO_MAX \<and>
          DIVN_MIN \<le> unat (divnint d') \<and> unat (divnint d') \<le> DIVN_MAX \<and>
          FVCO_MIN \<le> unat (fvco d') \<and> unat (fvco d') \<le> FVCO_MAX \<and>
          unat (fvco d') = unat (req_freq (brought_up 49152000 156250000)) * unat (divo d') \<and>
          unat (divnfrac d') \<le> 2 ^ 24
      | _ \<Rightarrow> False)"
proof -
  have h1: "fst (idtxp_calc_xo_settings (brought_up 49152000 156250000)) = 0"
    "dblr_dis (xo (snd (idtxp_calc_xo_settings (brought_up 49152000 156250000))))
       = dblr_dis (xo (brought_up 49152000 156250000))"
    by (simp_all add: eval_defs)
  have h2: "IDTXP_MIN_FREQ \<le> unat (req_freq (brought_up 49152000 156250000))"
    by (simp add: eval_defs)
  have h3: "unat (req_freq (brought_up 49152000 156250000)) \<le> IDTXP_MAX_FREQ"
    by (simp add: eval_defs)
  have v: "case idtxp_calc_divs (brought_up 49152000 156250000) of
        Some (Inr (err, d')) \<Rightarrow>
          divo d' = 44 \<and> divnint d' = 70 \<and> divnfrac d' = 15705429 \<and> fvco d' = 6875000000
      | _ \<Rightarrow> False"
    by (simp add: eval_defs solver_defs)
  show ?thesis
    using idtxp_calc_divs_invariants [OF h1 h2 h3] h1 h2 h3 v
    by (cases "idtxp_calc_divs (brought_up 49152000 156250000)") (auto split: sum.splits)
qed

section \<open>Charge-pump selection\<close>

text \<open>
  Claim C8. \<open>idtxp_calc_charge_pump\<close> maps the VCO frequency to the charge-pump code by
  four ranges that do not overlap, each breakpoint belonging to the range above it:
  below 7.0 GHz the code is 5, from 7.0 GHz and below 7.4 GHz it is 4, from 7.4 GHz and
  below 7.8 GHz it is 3, from 7.8 GHz on it is 2. At exactly 7 000 000 000 Hz the code
  is 4 and at exactly 7 800 000 000 Hz it is 2. The function returns 0 and changes no
  other field.
\<close>

theorem idtxp_calc_charge_pump_ranges:
  "idtxp_calc_charge_pump d =
     (0, d\<lparr>icp_value := (if fvco d < 7000000000 then 5
                          else if fvco d < 7400000000 then 4
                          else if fvco d < 7800000000 then 3 else 2)\<rparr>)
   \<and> icp_value (snd (idtxp_calc_charge_pump (d\<lparr>fvco := 7000000000\<rparr>))) = 4
   \<and> icp_value (snd (idtxp_calc_charge_pump (d\<lparr>fvco := 7800000000\<rparr>))) = 2"
  by (auto simp add: idtxp_calc_charge_pump_def)

theorem idtxp_calc_charge_pump_ranges_witness:
  "icp_value (snd (idtxp_calc_charge_pump ((zeroed idle_port)\<lparr>fvco := 6999999999\<rparr>))) = 5
   \<and> icp_value (snd (idtxp_calc_charge_pump ((zeroed idle_port)\<lparr>fvco := 7399999999\<rparr>))) = 4
   \<and> icp_value (snd (idtxp_calc_charge_pump ((zeroed idle_port)\<lparr>fvco := 7400000000\<rparr>))) = 3
   \<and> icp_value (snd (idtxp_calc_charge_pump ((zeroed idle_port)\<lparr>fvco := 7800000000\<rparr>))) = 2"
  using idtxp_calc_charge_pump_ranges [of "(zeroed idle_port)\<lparr>fvco := 6999999999\<rparr>"]
    idtxp_calc_charge_pump_ranges [of "(zeroed idle_port)\<lparr>fvco := 7399999999\<rparr>"]
    idtxp_calc_charge_pump_ranges [of "(zeroed idle_port)\<lparr>fvco := 7400000000\<rparr>"]
    idtxp_calc_charge_pump_ranges [of "(zeroed idle_port)\<lparr>fvco := 7800000000\<rparr>"]
  by simp

section \<open>Properties of the bit-field codec\<close>

lemma bit_to_shift_field_cases:
  "s \<in> {0, 1, 2, 3, 4, 5, 6, 7} \<Longrightarrow> w \<in> {1, 2, 3, 4, 5, 6, 7, 8} \<Longrightarrow> s + w \<le> 8 \<Longrightarrow>
   bit_to_shift (ucast (push_bit s (mask w) :: u8)) = int s"
  by (auto simp: bit_to_shift_def mask_eq_exp_minus_1)

lemma bit_to_shift_field:
  assumes "0 < w" "s + w \<le> 8"
  shows "bit_to_shift (ucast (push_bit s (mask w) :: u8)) = int s"
proof -
  have "s \<in> {0, 1, 2, 3, 4, 5, 6, 7}" using assms by auto
  moreover have "w \<in> {1, 2, 3, 4, 5, 6, 7, 8}" using assms by auto
  ultimately show ?thesis using assms(2) by (rule bit_to_shift_field_cases)
qed

lemma fits_bits:
  assumes "unat (v :: u8) < 2 ^ w" "bit v n"
  shows "n < w"
proof -
  have "take_bit w (unat v) = unat v"
    using assms(1) by (simp add: take_bit_nat_eq_self_iff)
  moreover have "bit (unat v) n"
    using assms(2) by (simp add: bit_unsigned_iff)
  ultimately show ?thesis
    by (metis bit_take_bit_iff)
qed

lemma set_to_reg_outside:
  assumes "0 < w" "s + w \<le> 8" "unat v < 2 ^ w"
  shows "set_to_reg b v (ucast (push_bit s (mask w) :: u8)) AND NOT (push_bit s (mask w))
         = b AND NOT (push_bit s (mask w))"
  unfolding set_to_reg_def bit_to_shift_field[OF assms(1,2)]
  using fits_bits[OF assms(3)] assms(1,2)
  by (intro bit_eqI) (auto simp add: bit_simps)

lemma set_to_reg_inside:
  assumes "0 < w" "s + w \<le> 8" "unat v < 2 ^ w"
  shows "set_to_reg b v (ucast (push_bit s (mask w) :: u8)) AND push_bit s (mask w) = push_bit s v"
  unfolding set_to_reg_def bit_to_shift_field[OF assms(1,2)]
  using fits_bits[OF assms(3)] assms(1,2)
  by (intro bit_eqI) (auto simp add: bit_simps)

lemma get_from_reg_set_to_reg:
  assumes "0 < w" "s + w \<le> 8" "unat v < 2 ^ w"
  shows "get_from_reg (set_to_reg b v (ucast (push_bit s (mask w) :: u8)))
           (ucast (push_bit s (mask w) :: u8)) = v"
proof -
  have F: "s + n < 8 \<and> n < w" if "bit v n" for n
    using fits_bits[OF assms(3) that] assms(2) by simp
  show ?thesis
    unfolding set_to_reg_def get_from_reg_def bit_to_shift_field[OF assms(1,2)]
    by (rule bit_eqI) (auto simp add: bit_simps dest: F)
qed

text \<open>
  Claim C9, as stated, for every nonzero mask: it fails for a mask whose set bits are
  not adjacent. With byte 0, mask \<open>0x05\<close> (bits 0 and 2) and value 2, which fits in two
  bits, \<open>set_to_reg\<close> sets bit 1, which lies outside the mask and was clear in the byte,
  and \<open>get_from_reg\<close> returns 0 instead of 2.
\<close>

theorem set_to_reg_split_mask_counterexample:
  "(5 :: u8) \<noteq> 0 \<and> unat (2 :: u8) < 2 ^ 2
   \<and> set_to_reg 0 2 5 AND NOT 5 \<noteq> 0 AND NOT 5
   \<and> get_from_reg (set_to_reg 0 2 5) 5 \<noteq> 2"
  by (simp add: set_to_reg_def get_from_reg_def bit_to_shift_def)

text \<open>
  Claim C9, amended: for every byte \<open>b\<close>, every mask of \<open>w > 0\<close> adjacent bits starting
  at bit \<open>s\<close> (\<open>s + w \<le> 8\<close>) and every value \<open>v < 2 ^ w\<close>, \<open>bit_to_shift\<close> finds \<open>s\<close>,
  \<open>set_to_reg\<close> produces a byte whose bits outside the mask are those of \<open>b\<close> and whose
  bits inside the mask are \<open>v\<close> shifted left by \<open>s\<close>, and \<open>get_from_reg\<close> of that byte
  with the same mask returns \<open>v\<close>.
\<close>

theorem set_to_reg_get_from_reg_field:
  assumes "0 < w" "s + w \<le> 8" "unat v < 2 ^ w"
  shows "bit_to_shift (ucast (push_bit s (mask w) :: u8)) = int s
    \<and> set_to_reg b v (ucast (push_bit s (mask w) :: u8)) AND NOT (push_bit s (mask w))
        = b AND NOT (push_bit s (mask w))
    \<and> set_to_reg b v (ucast (push_bit s (mask w) :: u8)) AND push_bit s (mask w) = push_bit s v
    \<and> get_from_reg (set_to_reg b v (ucast (push_bit s (mask w) :: u8)))
          (ucast (push_bit s (mask w) :: u8)) = v"
  using bit_to_shift_field[OF assms(1,2)] set_to_reg_outside[OF assms]
    set_to_reg_inside[OF assms] get_from_reg_set_to_reg[OF assms]
  by simp

theorem set_to_reg_get_from_reg_field_witness:
  "(0 :: nat) < 2 \<and> (4 :: nat) + 2 \<le> 8 \<and> unat (3 :: u8) < 2 ^ 2
   \<and> push_bit 4 (mask 2) = (0x30 :: u8)
   \<and> bit_to_shift 0x30 = 4
   \<and> set_to_reg 0xC5 3 0x30 = 0xF5
   \<and> get_from_reg 0xF5 0x30 = 3"
proof -
  have m: "push_bit 4 (mask 2) = (0x30 :: u8)"
    by (simp add: mask_eq_exp_minus_1)
  have h: "(0 :: nat) < 2" "(4 :: nat) + 2 \<le> 8" "unat (3 :: u8) < 2 ^ 2"
    by simp_all
  have v: "set_to_reg 0xC5 3 0x30 = 0xF5"
    by (simp add: set_to_reg_def bit_to_shift_def)
  show ?thesis
    using set_to_reg_get_from_reg_field [OF h, of "0xC5"] h
    by (simp add: m v)
qed

section \<open>Derived register bytes\<close>

text \<open>What \<open>update_divis_regs\<close> stores, for every \<open>divo\<close> and \<open>divnfrac\<close>.\<close>

lemma update_divis_regs_fields:
  "divo_8 (update_divis_regs d) = (if bit (divo d) 8 then 1 else 0)"
  "divnint_8_7 (update_divis_regs d) = (if bit (divo d) 8 then 2 else 0)"
  "divnfrac_15_8 (update_divis_regs d) = ucast (drop_bit 8 (divnfrac d))"
  "divnfrac_23_16 (update_divis_regs d) = ucast (drop_bit 16 (divnfrac d))"
proof -
  have b2: "bit (2 :: u8) n \<longleftrightarrow> n = 1" for n
    by (cases n) (simp_all add: bit_Suc bit_1_iff)
  have "(255 :: int) = mask 8"
    by (simp add: mask_eq_exp_minus_1)
  then have b255: "bit (255 :: int) n \<longleftrightarrow> n < 8" for n
    by (simp only: bit_mask_iff) auto
  show "divo_8 (update_divis_regs d) = (if bit (divo d) 8 then 1 else 0)"
    by (simp add: update_divis_regs_def Let_def, intro conjI impI; rule bit_eqI)
       (auto simp add: bit_simps intro!: gr0I)
  show "divnint_8_7 (update_divis_regs d) = (if bit (divo d) 8 then 2 else 0)"
    by (simp add: update_divis_regs_def Let_def, intro conjI impI; rule bit_eqI)
       (auto simp add: bit_simps b2 intro!: gr0I)
  show "divnfrac_15_8 (update_divis_regs d) = ucast (drop_bit 8 (divnfrac d))"
    by (simp add: update_divis_regs_def Let_def, rule bit_eqI)
       (auto simp add: bit_simps b255)
  show "divnfrac_23_16 (update_divis_regs d) = ucast (drop_bit 16 (divnfrac d))"
    by (simp add: update_divis_regs_def Let_def, rule bit_eqI)
       (auto simp add: bit_simps b255)
qed

text \<open>
  Claim C4 says that after \<open>update_divis_regs\<close> the field \<open>divnint_8_7\<close> holds bits 8 to 7
  of \<open>divnint\<close>. The function computes it from \<open>divo\<close> with the mask \<open>0x2 << 7\<close>: for
  \<open>divo = 4\<close> and \<open>divnint = 128\<close> (both within their bounds) it stores 0, while bits 8
  to 7 of 128 are 1. The other three fields are as the claim says (lemma
  \<open>update_divis_regs_fields\<close>).
\<close>

theorem update_divis_regs_divnint_8_7_from_divo:
  "divnint_8_7 (update_divis_regs ((zeroed idle_port)\<lparr>divo := 4, divnint := 128\<rparr>)) = 0
   \<and> (ucast (drop_bit 7 (128 :: u16) AND 3) :: u8) = 1"
  by (simp add: update_divis_regs_def zeroed_def Let_def)

section \<open>Classification of a rate change\<close>

lemma sint_neg_iff_64: "sint (x :: u64) < 0 \<longleftrightarrow> 9223372036854775808 \<le> unat x"
proof -
  have "sint x < 0 \<longleftrightarrow> bit x 63"
    using bit_last_iff[of x] by simp
  also have "\<dots> \<longleftrightarrow> bit (unat x) 63"
    by (simp add: bit_unsigned_iff)
  also have "\<dots> \<longleftrightarrow> odd (unat x div 2 ^ 63)"
    by (simp only: bit_iff_odd)
  also have "\<dots> \<longleftrightarrow> 9223372036854775808 \<le> unat x"
  proof (cases "9223372036854775808 \<le> unat x")
    case True
    have "unat x < 2 * 2 ^ 63" using unsigned_less[of x] by simp
    then have "unat x div 2 ^ 63 < 2" by (simp only: div_less_iff_less_mult)
    moreover have "1 \<le> unat x div 2 ^ 63" using True by (simp add: less_eq_div_iff_mult_less_eq)
    ultimately have "unat x div 2 ^ 63 = 1" by simp
    then show ?thesis using True by simp
  next
    case False
    then have "unat x div 2 ^ 63 = 0" by simp
    then show ?thesis using False by simp
  qed
  finally show ?thesis .
qed

lemma unat_kernel_abs_diff:
  assumes "unat (rate :: u64) \<le> 2100000000"
  shows "unat (kernel_abs (rate - ucast (a :: u32)))
           = (if unat a \<le> unat rate then unat rate - unat a else unat a - unat rate)"
proof (cases "unat a \<le> unat rate")
  case True
  have ua: "unat (ucast a :: u64) = unat a" by (rule unat_up_32_64)
  have "unat (rate - ucast a) = unat rate - unat a"
    using True by (simp add: unat_sub_if' ua)
  moreover from this have "\<not> sint (rate - ucast a) < 0"
    using assms by (simp add: sint_neg_iff_64)
  ultimately show ?thesis using True by (simp add: kernel_abs_def)
next
  case False
  have ua: "unat (ucast a :: u64) = unat a" by (rule unat_up_32_64)
  have lt: "unat a < 4294967296" by (rule unat_lt_32)
  have u: "unat (rate - ucast a) = unat rate + 18446744073709551616 - unat a"
    using False by (simp add: unat_sub_if' ua)
  then have neg: "sint (rate - ucast a) < 0"
    using lt by (simp add: sint_neg_iff_64)
  have "- (rate - ucast a) = ucast a - rate" by simp
  moreover have "unat (ucast a - rate) = unat a - unat rate"
    using False by (simp add: unat_sub_if' ua)
  ultimately show ?thesis using False neg by (simp add: kernel_abs_def)
qed


lemma set_rate_quotient:
  assumes "unat (rate :: u64) \<le> 2100000000" "a \<noteq> (0 :: u32)"
  shows "div64_u64 (kernel_abs (rate - ucast a) * 10000) (ucast a)
           = Inr (kernel_abs (rate - ucast a) * 10000 div ucast a)"
    and "kernel_abs (rate - ucast a) * 10000 div ucast a < 5
         \<longleftrightarrow> (if unat a \<le> unat rate then unat rate - unat a else unat a - unat rate)
                           * 10000 div unat a < 5"
proof -
  let ?d = "if unat a \<le> unat rate then unat rate - unat a else unat a - unat rate"
  have ua: "unat (ucast a :: u64) = unat a" by (rule unat_up_32_64)
  have a0: "(ucast a :: u64) \<noteq> 0"
    using assms(2) by (metis ua unat_eq_zero)
  have dlt: "?d < 4294967296"
    using unat_lt_32[of a] assms(1) by auto
  have uk: "unat (kernel_abs (rate - ucast a)) = ?d"
    by (rule unat_kernel_abs_diff[OF assms(1)])
  have "?d * 10000 < 2 ^ 64" using dlt by simp
  then have um: "unat (kernel_abs (rate - ucast a) * 10000) = ?d * 10000"
    by (simp add: unat_word_ariths uk)
  have uq: "unat (kernel_abs (rate - ucast a) * 10000 div ucast a) = ?d * 10000 div unat a"
    by (simp only: unat_div um ua)
  show "div64_u64 (kernel_abs (rate - ucast a) * 10000) (ucast a)
           = Inr (kernel_abs (rate - ucast a) * 10000 div ucast a)"
    using a0 by (simp only: div64_u64_def if_False)
  show "kernel_abs (rate - ucast a) * 10000 div ucast a < 5 \<longleftrightarrow> ?d * 10000 div unat a < 5"
    by (simp only: word_less_nat_alt uq) simp
qed

text \<open>
  Claim C6. For a structure with the bounds the probe sets (16 MHz and 2.1 GHz), a rate
  within them and a nonzero \<open>act_freq\<close>, \<open>idtxp_set_rate\<close> stores the rate in \<open>req_freq\<close>
  and runs \<open>idtxp_small_frequency_change\<close> exactly when the true absolute difference
  between the rate and \<open>act_freq\<close>, times 10000, divided by \<open>act_freq\<close> with truncation,
  is below 5; otherwise it runs \<open>idtxp_large_frequency_change\<close>. This holds for rates
  below \<open>act_freq\<close> as for rates above it.
\<close>

theorem idtxp_set_rate_classification:
  assumes "min_freq d = of_nat IDTXP_MIN_FREQ" "max_freq d = of_nat IDTXP_MAX_FREQ"
    and "min_freq d \<le> rate" "rate \<le> max_freq d" "act_freq d \<noteq> 0"
  shows "idtxp_set_rate d rate parent_rate uninit =
     (if (if unat (act_freq d) \<le> unat rate then unat rate - unat (act_freq d)
          else unat (act_freq d) - unat rate) * 10000 div unat (act_freq d) < 5
      then idtxp_small_frequency_change (d\<lparr>req_freq := ucast rate\<rparr>) rate uninit
      else idtxp_large_frequency_change (d\<lparr>req_freq := ucast rate\<rparr>) rate uninit)"
proof -
  have r: "unat rate \<le> 2100000000"
    using assms(2,4) by (simp add: word_le_nat_alt IDTXP_MAX_FREQ_def)
  have inr: "\<not> (rate < min_freq d \<or> rate > max_freq d)"
    using assms(3,4) by (simp add: not_less)
  note q = set_rate_quotient[OF r assms(5)]
  show ?thesis
    using inr by (simp add: idtxp_set_rate_def Let_def q)
qed

theorem idtxp_set_rate_classification_witness:
  "min_freq (running_at 100000000) = of_nat IDTXP_MIN_FREQ
   \<and> max_freq (running_at 100000000) = of_nat IDTXP_MAX_FREQ
   \<and> min_freq (running_at 100000000) \<le> 99950001 \<and> 99950001 \<le> max_freq (running_at 100000000)
   \<and> min_freq (running_at 100000000) \<le> 99949999 \<and> 99949999 \<le> max_freq (running_at 100000000)
   \<and> act_freq (running_at 100000000) \<noteq> 0
   \<and> idtxp_set_rate (running_at 100000000) 99950001 0 (\<lambda>_. 0)
       = idtxp_small_frequency_change ((running_at 100000000)\<lparr>req_freq := 99950001\<rparr>)
           99950001 (\<lambda>_. 0)
   \<and> idtxp_set_rate (running_at 100000000) 99949999 0 (\<lambda>_. 0)
       = idtxp_large_frequency_change ((running_at 100000000)\<lparr>req_freq := 99949999\<rparr>)
           99949999 (\<lambda>_. 0)"
proof -
  have h1: "min_freq (running_at 100000000) = of_nat IDTXP_MIN_FREQ"
    and h2: "max_freq (running_at 100000000) = of_nat IDTXP_MAX_FREQ"
    and h3: "min_freq (running_at 100000000) \<le> 99950001"
    and h4: "99950001 \<le> max_freq (running_at 100000000)"
    and h5: "act_freq (running_at 100000000) \<noteq> 0"
    and h6: "min_freq (running_at 100000000) \<le> 99949999"
    and h7: "99949999 \<le> max_freq (running_at 100000000)"
    and a: "act_freq (running_at 100000000) = 100000000"
    by (simp_all add: running_at_def running_def eval_defs)
  show ?thesis
    using idtxp_set_rate_classification [OF h1 h2 h3 h4 h5, of 0 "\<lambda>_. 0"]
      idtxp_set_rate_classification [OF h1 h2 h6 h7 h5, of 0 "\<lambda>_. 0"]
      h1 h2 h3 h4 h5 h6 h7
    by (simp add: a)
qed

section \<open>Evaluation on concrete states\<close>

lemma upt_0_6: "[0..<6] = [0, 1, 2, 3, 4, 5]"
  by (simp add: upt_rec)

lemma upt_0_8: "[0..<8] = [0, 1, 2, 3, 4, 5, 6, 7]"
  by (simp add: upt_rec)

lemma replicate_6: "replicate 6 x = [x, x, x, x, x, x]"
  by (simp add: eval_nat_numeral)

lemma replicate_8: "replicate 8 x = [x, x, x, x, x, x, x, x]"
  by (simp add: eval_nat_numeral)

lemma list_update_Cons_numeral: "(x # xs)[numeral v := y] = x # xs[numeral v - 1 := y]"
  by (simp add: numeral_eq_Suc)

lemmas list_defs = upt_0_6 upt_0_8 replicate_6 replicate_8 list_update_Cons_numeral

lemmas port_defs = regmap_write_def regmap_bulk_read_def regmap_multi_reg_write_def bus_result_def
  faulty_port_def

lemmas codec_defs = set_to_reg_def get_from_reg_def bit_to_shift_def
  IDTXP_DIVO_8_MASK_def IDTXP_DIVN_INT_6_0_MASK_def IDTXP_ICP_OFFSET_EN_MASK_def
  IDTXP_DIVN_INT_8_7_MASK_def IDTXP_ICP_VALUE_MASK_def IDTXP_PLL_MODE_MASK_def
  store_low_u16_def store_low_u32_def store_bool_def bool_u8_def divs_to_regs_def regs_to_divs_def

lemmas seq_defs = idtxp_set_rate_def idtxp_small_frequency_change_def idtxp_large_frequency_change_def
  idtxp_calc_charge_pump_def idtxp_write_divs_settings_def idtxp_setup_def kernel_abs_def
  IDTXP_REG_DIVO_7_0_def IDTXP_REG_CONTROL_def IDTXP_REG_FREQ_CHG_def

section \<open>Round trip through the divider registers\<close>

text \<open>
  Claim C3 says that writing a divider set to registers \<open>0x10\<close> to \<open>0x15\<close> with
  \<open>idtxp_write_divs_settings\<close> and reading it back with \<open>idtxp_get_divs_and_icp\<close> gives the
  same divider set. For \<open>divo = 4\<close>, \<open>divnint = 128\<close>, \<open>divnfrac = 0\<close> and
  \<open>icp_value = 5\<close> on a port without faults both calls return 0, yet the structure read back has \<open>divo = 260\<close> and
  \<open>divnint = 0\<close>: bit 7 of \<open>divnint\<close> is ORed into the \<open>divo_8\<close> position of register
  \<open>0x11\<close>, and bits 8 to 7 of \<open>divnint\<close> are never written.
\<close>

theorem divs_round_trip_loses_divnint:
  "case idtxp_write_divs_settings
          ((running [])\<lparr>divo := 4, divnint := 128, icp_value := 5\<rparr>) (\<lambda>_. 0) of
     (err, d1) \<Rightarrow>
       (case idtxp_get_divs_and_icp d1 of
          (err', d2) \<Rightarrow> err = 0 \<and> err' = 0 \<and> divo d2 = 260 \<and> divnint d2 = 0)"
  by (simp add: running_def eval_defs seq_defs port_defs codec_defs list_defs
      update_divis_regs_def Let_def idtxp_get_divs_and_icp_def)

section \<open>The rate reported after a failed change\<close>

text \<open>
  Claim C5 says that \<open>idtxp_recalc_rate\<close> returns the last frequency applied with success,
  \<open>act_freq\<close>. The function returns \<open>req_freq\<close>. Starting at 16 MHz, a request for
  100 MHz whose batch write fails (the second transaction returns -5) returns -5 and
  leaves \<open>act_freq\<close> at 16 MHz, and \<open>idtxp_recalc_rate\<close> then reports 100 MHz.
\<close>

theorem idtxp_recalc_rate_after_failed_set_rate:
  "case idtxp_set_rate (running [0, - 5]) 100000000 0 (\<lambda>_. 0) of
     Some (Inr (err, d)) \<Rightarrow>
       err = - 5 \<and> act_freq d = 16000000 \<and> idtxp_recalc_rate d 0 = 100000000
   | _ \<Rightarrow> False"
  by (simp add: running_def eval_defs solver_defs seq_defs port_defs codec_defs list_defs
      idtxp_recalc_rate_def)

section \<open>Transport failures during a rate change\<close>

text \<open>
  What the callees of the update sequence return, by the return codes of the coming
  transactions. \<open>idtxp_write_divs_settings\<close> returns the code of its second transaction
  (the batch write) whatever the first (the bulk read) returned.
\<close>

lemma write_divs_codes:
  "faults (regmap d) = e1 # e2 # es \<Longrightarrow> fst (idtxp_write_divs_settings d u) = e2"
  "faults (regmap d) = e1 # e2 # es \<Longrightarrow> faults (regmap (snd (idtxp_write_divs_settings d u))) = es"
  "req_freq (snd (idtxp_write_divs_settings d u)) = req_freq d"
  "act_freq (snd (idtxp_write_divs_settings d u)) = act_freq d"
  by (simp_all add: idtxp_write_divs_settings_def regmap_bulk_read_def regmap_multi_reg_write_def
      bus_result_def update_divis_regs_def Let_def split: list.splits prod.splits)

lemma setup_codes:
  "faults (regmap d) = 0 # 0 # 0 # 0 # 0 # es \<Longrightarrow> fst (idtxp_setup d) = 0"
  "faults (regmap d) = 0 # 0 # 0 # 0 # 0 # es \<Longrightarrow> faults (regmap (snd (idtxp_setup d))) = es"
  "req_freq (snd (idtxp_setup d)) = req_freq d"
  "act_freq (snd (idtxp_setup d)) = act_freq d"
  by (simp_all add: idtxp_setup_def regmap_write_def bus_result_def Let_def
      split: list.splits prod.splits)


lemma regmap_write_faults: "faults (snd (regmap_write rm r v)) = tl (faults rm)"
  by (simp add: regmap_write_def bus_result_def Let_def split: list.splits)

lemma drop_2_tl: "tl (tl xs) = drop 2 xs"
  by (cases xs) (simp_all add: drop_Suc numeral_2_eq_2)

lemma large_change_codes:
  assumes "idtxp_calc_divs d = Some (Inr (0, d1))"
    and "faults (regmap d1) = e1 # 0 # 0 # 0 # 0 # 0 # 0 # es"
  shows "case idtxp_large_frequency_change d f u of
           Some (Inr (err, d')) \<Rightarrow>
             err = 0 \<and> act_freq d' = req_freq d1 \<and> faults (regmap d') = drop 2 es
         | _ \<Rightarrow> False"
proof -
  let ?d2 = "snd (idtxp_calc_charge_pump d1)"
  let ?d3 = "snd (idtxp_write_divs_settings ?d2 u)"
  let ?d4 = "snd (idtxp_setup ?d3)"
  have c: "fst (idtxp_calc_charge_pump d1) = 0" "regmap ?d2 = regmap d1" "req_freq ?d2 = req_freq d1"
    by (simp_all add: idtxp_calc_charge_pump_def)
  have f2: "faults (regmap ?d2) = e1 # 0 # 0 # 0 # 0 # 0 # 0 # es"
    by (simp only: c assms(2))
  have w: "fst (idtxp_write_divs_settings ?d2 u) = 0" "faults (regmap ?d3) = 0 # 0 # 0 # 0 # 0 # es"
    "req_freq ?d3 = req_freq d1"
    by (simp_all only: write_divs_codes(1,2)[OF f2] write_divs_codes(3) c)
  have s: "fst (idtxp_setup ?d3) = 0" "faults (regmap ?d4) = es" "req_freq ?d4 = req_freq d1"
    by (simp_all only: setup_codes(1,2)[OF w(2)] setup_codes(3) w(3))
  show ?thesis
    by (simp add: idtxp_large_frequency_change_def assms(1) case_prod_beta Let_def c w s
        regmap_write_faults drop_2_tl)
qed


lemma write_divs_no_trigger:
  assumes "IDTXP_REG_FREQ_CHG \<notin> fst ` set (written (regmap d))"
  shows "IDTXP_REG_FREQ_CHG \<notin> fst ` set (written (regmap (snd (idtxp_write_divs_settings d u))))"
  using assms
  by (simp add: idtxp_write_divs_settings_def regmap_bulk_read_def regmap_multi_reg_write_def
      bus_result_def update_divis_regs_def Let_def upt_0_6 image_Un
      IDTXP_REG_FREQ_CHG_def IDTXP_REG_DIVO_7_0_def split: list.splits prod.splits)

lemma setup_no_trigger:
  assumes "IDTXP_REG_FREQ_CHG \<notin> fst ` set (written (regmap d))"
  shows "IDTXP_REG_FREQ_CHG \<notin> fst ` set (written (regmap (snd (idtxp_setup d))))"
  using assms
  by (simp add: idtxp_setup_def regmap_write_def bus_result_def Let_def
      IDTXP_REG_FREQ_CHG_def IDTXP_REG_CONTROL_def split: list.splits prod.splits)

lemma regmap_write_fault: "faults rm = e # es \<Longrightarrow> e \<noteq> 0 \<Longrightarrow>
    regmap_write rm r v = (e, rm\<lparr>faults := es\<rparr>)"
  by (simp add: regmap_write_def bus_result_def)


lemma large_change_trigger_faults:
  assumes "idtxp_calc_divs d = Some (Inr (0, d1))"
    and "faults (regmap d1) = e1 # 0 # 0 # 0 # 0 # 0 # 0 # e8 # e9 # es"
    and "e8 \<noteq> 0" "e9 \<noteq> 0"
    and "IDTXP_REG_FREQ_CHG \<notin> fst ` set (written (regmap d1))"
  shows "case idtxp_large_frequency_change d f u of
           Some (Inr (err, d')) \<Rightarrow>
             err = 0 \<and> act_freq d' = req_freq d1 \<and>
             IDTXP_REG_FREQ_CHG \<notin> fst ` set (written (regmap d'))
         | _ \<Rightarrow> False"
proof -
  let ?d2 = "snd (idtxp_calc_charge_pump d1)"
  let ?d3 = "snd (idtxp_write_divs_settings ?d2 u)"
  let ?d4 = "snd (idtxp_setup ?d3)"
  have c: "fst (idtxp_calc_charge_pump d1) = 0" "regmap ?d2 = regmap d1" "req_freq ?d2 = req_freq d1"
    by (simp_all add: idtxp_calc_charge_pump_def)
  have f2: "faults (regmap ?d2) = e1 # 0 # 0 # 0 # 0 # 0 # 0 # e8 # e9 # es"
    by (simp only: c assms(2))
  have w: "fst (idtxp_write_divs_settings ?d2 u) = 0"
    "faults (regmap ?d3) = 0 # 0 # 0 # 0 # 0 # e8 # e9 # es" "req_freq ?d3 = req_freq d1"
    by (simp_all only: write_divs_codes(1,2)[OF f2] write_divs_codes(3) c)
  have s: "fst (idtxp_setup ?d3) = 0" "faults (regmap ?d4) = e8 # e9 # es" "req_freq ?d4 = req_freq d1"
    by (simp_all only: setup_codes(1,2)[OF w(2)] setup_codes(3) w(3))
  have n2: "IDTXP_REG_FREQ_CHG \<notin> fst ` set (written (regmap ?d2))"
    using assms(5) by (simp add: c(2))
  have n4: "IDTXP_REG_FREQ_CHG \<notin> fst ` set (written (regmap ?d4))"
    by (intro setup_no_trigger write_divs_no_trigger n2)
  have t1: "regmap_write (regmap ?d4) IDTXP_REG_FREQ_CHG 1 = (e8, (regmap ?d4)\<lparr>faults := e9 # es\<rparr>)"
    by (rule regmap_write_fault[OF s(2) assms(3)])
  have t2: "regmap_write ((regmap ?d4)\<lparr>faults := e9 # es\<rparr>) IDTXP_REG_FREQ_CHG 0
              = (e9, (regmap ?d4)\<lparr>faults := es\<rparr>)"
    using assms(4) by (simp add: regmap_write_fault)
  show ?thesis
    using n4
    by (simp add: idtxp_large_frequency_change_def assms(1) case_prod_beta Let_def c w s t1 t2)
qed

lemma calc_divs_running:
  "\<exists>d1. idtxp_calc_divs ((running fs)\<lparr>req_freq := 100000000\<rparr>) = Some (Inr (0, d1))
      \<and> regmap d1 = faulty_port fs \<and> req_freq d1 = 100000000"
  by (simp add: running_def eval_defs solver_defs)

lemma set_rate_running:
  "idtxp_set_rate (running fs) 100000000 0 u
     = idtxp_large_frequency_change ((running fs)\<lparr>req_freq := 100000000\<rparr>) 100000000 u"
  by (simp add: idtxp_set_rate_def running_def eval_defs div64_u64_def kernel_abs_def)

text \<open>
  Claim C7 says that every failed transaction of a rate change aborts it, leaves
  \<open>act_freq\<close> as it was and reaches the caller as an error. Starting at 16 MHz with a
  request for 100 MHz: when the bulk read of \<open>idtxp_write_divs_settings\<close> fails (the first
  transaction returns -5), \<open>idtxp_set_rate\<close> returns 0 and \<open>act_freq\<close> is 100 MHz; when the
  two trigger writes fail (the eighth and ninth transactions return -5), it returns 0
  and \<open>act_freq\<close> is 100 MHz although register \<open>0x62\<close> has never been written.
\<close>

theorem idtxp_set_rate_swallows_transport_failures:
  "(case idtxp_set_rate (running [- 5, 0, 0, 0, 0, 0, 0]) 100000000 0 (\<lambda>_. 0) of
      Some (Inr (err, d)) \<Rightarrow> err = 0 \<and> act_freq d = 100000000
    | _ \<Rightarrow> False)
   \<and> (case idtxp_set_rate (running [0, 0, 0, 0, 0, 0, 0, - 5, - 5]) 100000000 0 (\<lambda>_. 0) of
      Some (Inr (err, d)) \<Rightarrow>
        err = 0 \<and> act_freq d = 100000000 \<and>
        IDTXP_REG_FREQ_CHG \<notin> fst ` set (written (regmap d))
    | _ \<Rightarrow> False)
   \<and> act_freq (running [- 5, 0, 0, 0, 0, 0, 0]) = 16000000
   \<and> act_freq (running [0, 0, 0, 0, 0, 0, 0, - 5, - 5]) = 16000000"
proof -
  obtain d1 where d1: "idtxp_calc_divs ((running [- 5, 0, 0, 0, 0, 0, 0])\<lparr>req_freq := 100000000\<rparr>)
      = Some (Inr (0, d1))" "regmap d1 = faulty_port [- 5, 0, 0, 0, 0, 0, 0]" "req_freq d1 = 100000000"
    using calc_divs_running by blast
  have f1: "faults (regmap d1) = - 5 # 0 # 0 # 0 # 0 # 0 # 0 # []"
    by (simp add: d1(2) faulty_port_def)
  obtain d2 where d2: "idtxp_calc_divs ((running [0, 0, 0, 0, 0, 0, 0, - 5, - 5])\<lparr>req_freq := 100000000\<rparr>)
      = Some (Inr (0, d2))" "regmap d2 = faulty_port [0, 0, 0, 0, 0, 0, 0, - 5, - 5]"
      "req_freq d2 = 100000000"
    using calc_divs_running by blast
  have f2: "faults (regmap d2) = 0 # 0 # 0 # 0 # 0 # 0 # 0 # - 5 # - 5 # []"
    by (simp add: d2(2) faulty_port_def)
  have n2: "IDTXP_REG_FREQ_CHG \<notin> fst ` set (written (regmap d2))"
    by (simp add: d2(2) faulty_port_def)
  have A: "case idtxp_large_frequency_change ((running [- 5, 0, 0, 0, 0, 0, 0])\<lparr>req_freq := 100000000\<rparr>)
              100000000 (\<lambda>_. 0) of
      Some (Inr (err, d)) \<Rightarrow> err = 0 \<and> act_freq d = 100000000
    | _ \<Rightarrow> False"
    using large_change_codes[OF d1(1) f1, of 100000000 "\<lambda>_. 0"]
    by (auto simp add: d1(3) split: option.splits sum.splits)
  have B: "case idtxp_large_frequency_change
              ((running [0, 0, 0, 0, 0, 0, 0, - 5, - 5])\<lparr>req_freq := 100000000\<rparr>)
              100000000 (\<lambda>_. 0) of
      Some (Inr (err, d)) \<Rightarrow>
        err = 0 \<and> act_freq d = 100000000 \<and>
        IDTXP_REG_FREQ_CHG \<notin> fst ` set (written (regmap d))
    | _ \<Rightarrow> False"
    using large_change_trigger_faults[OF d2(1) f2 _ _ n2, of 100000000 "\<lambda>_. 0"]
    by (auto simp add: d2(3) split: option.splits sum.splits)
  have C: "act_freq (running [- 5, 0, 0, 0, 0, 0, 0]) = 16000000"
    "act_freq (running [0, 0, 0, 0, 0, 0, 0, - 5, - 5]) = 16000000"
    by (simp_all add: running_def eval_defs)
  from A B C show ?thesis
    by (simp only: set_rate_running simp_thms)
qed

section \<open>An unsupported reference frequency\<close>

lemma idtxp_calc_xo_settings_unsupported:
  assumes "\<not> (40000000 \<le> fxtal d \<and> fxtal d \<le> 80000000)"
    and "\<not> (100000000 \<le> fxtal d \<and> fxtal d \<le> 166000000)"
  shows "idtxp_calc_xo_settings d = (- EINVAL, d)"
  using assms
  by (auto simp add: idtxp_calc_xo_settings_def word_le_nat_alt word_less_nat_alt)

lemma regs_to_divs_keeps:
  "regmap (regs_to_divs d reg) = regmap d" "fxtal (regs_to_divs d reg) = fxtal d"
  "has_settings (regs_to_divs d reg) = has_settings d"
  by (simp_all add: regs_to_divs_def Let_def)

lemma regs_to_xo_keeps:
  "regmap (regs_to_xo d reg) = regmap d" "fxtal (regs_to_xo d reg) = fxtal d"
  "has_settings (regs_to_xo d reg) = has_settings d"
  by (simp_all add: regs_to_xo_def)

lemma get_defaults_ok:
  "faults (regmap d) = [] \<Longrightarrow> fst (idtxp_get_defaults d) = 0"
  "faults (regmap d) = [] \<Longrightarrow> faults (regmap (snd (idtxp_get_defaults d))) = []"
  "fxtal (snd (idtxp_get_defaults d)) = fxtal d"
  "has_settings (snd (idtxp_get_defaults d)) = has_settings d"
  by (simp_all add: idtxp_get_defaults_def idtxp_get_divs_and_icp_def idtxp_get_xo_settings_def
      regmap_bulk_read_def bus_result_def Let_def regs_to_divs_keeps regs_to_xo_keeps
      split: list.splits prod.splits)

lemma calc_xo_keeps:
  "regmap (snd (idtxp_calc_xo_settings d)) = regmap d"
  "fxtal (snd (idtxp_calc_xo_settings d)) = fxtal d"
  by (simp_all add: idtxp_calc_xo_settings_def)

lemma write_xo_keeps:
  "faults (regmap d) = [] \<Longrightarrow> faults (regmap (snd (idtxp_write_xo_settings d u))) = []"
  "fxtal (snd (idtxp_write_xo_settings d u)) = fxtal d"
  by (simp_all add: idtxp_write_xo_settings_def regmap_bulk_read_def regmap_multi_reg_write_def
      bus_result_def Let_def split: list.splits prod.splits)

lemma probe_accepts_any_reference:
  "case idtxp_probe (bring_up fx (Inl e)) u of
     Some (Inr (err, Some d)) \<Rightarrow> err = 0 \<and> fxtal d = fx
   | _ \<Rightarrow> False"
  by (simp add: idtxp_probe_def bring_up_def EINVAL_def EOVERFLOW_def case_prod_beta Let_def
      zeroed_def idle_port_def get_defaults_ok calc_xo_keeps write_xo_keeps regmap_write_faults)

text \<open>
  Claim C10 says that a reference frequency outside the three bands gives an error,
  changes no XO field and makes the instance fail fast. For 39 MHz
  \<open>idtxp_calc_xo_settings\<close> does return \<open>-EINVAL\<close> and changes nothing, but \<open>idtxp_probe\<close>
  discards that return code: on a platform where every other call succeeds it returns
  0, with the clock registered for a 39 MHz crystal.
\<close>

theorem idtxp_probe_ignores_unsupported_reference:
  "idtxp_calc_xo_settings ((zeroed idle_port)\<lparr>fxtal := 39000000\<rparr>)
     = (- EINVAL, (zeroed idle_port)\<lparr>fxtal := 39000000\<rparr>)
   \<and> (case idtxp_probe (bring_up 39000000 (Inl (- EINVAL))) (\<lambda>_. 0) of
        Some (Inr (err, Some d)) \<Rightarrow> err = 0 \<and> fxtal d = 39000000
      | _ \<Rightarrow> False)"
proof -
  have "idtxp_calc_xo_settings ((zeroed idle_port)\<lparr>fxtal := 39000000\<rparr>)
     = (- EINVAL, (zeroed idle_port)\<lparr>fxtal := 39000000\<rparr>)"
    by (rule idtxp_calc_xo_settings_unsupported) simp_all
  then show ?thesis
    using probe_accepts_any_reference [of 39000000 "- EINVAL" "\<lambda>_. 0"] by simp
qed

end
